theory Spec2Isabelle
  imports Main "HOL-Library.Word"
begin

unbundle bit_operations_syntax

section \<open>CMSIS-RTOS RTX: Event Flags functions (rtx_evflags.c)\<close>

text \<open>
  A shallow embedding of \<^verbatim>\<open>src/CMSIS/RTOS2/RTX/Source/rtx_evflags.c\<close>. Every C function
  of the file is a HOL function of the same name that takes the kernel state and returns
  its result with the updated state. The build variant embedded is
  \<^verbatim>\<open>EXCLUSIVE_ACCESS == 0\<close> (the critical sections written out in the file); the
  other variant calls \<^verbatim>\<open>atomic_set32\<close>, \<^verbatim>\<open>atomic_clr32\<close> and \<^verbatim>\<open>atomic_chk32_*\<close>,
  which the file does not contain.
\<close>

subsection \<open>Machine types\<close>

type_synonym u8 = "8 word"
type_synonym u32 = "32 word"

text \<open>A pointer is its 32-bit address; \<^verbatim>\<open>NULL\<close> is address 0.\<close>

type_synonym ptr = u32

definition NULL :: ptr where
  "NULL = 0"

subsection \<open>Constants of the headers\<close>

text \<open>
  The headers \<^verbatim>\<open>cmsis_os2.h\<close>, \<^verbatim>\<open>rtx_os.h\<close> and \<^verbatim>\<open>rtx_lib.h\<close> that declare the
  constants of this file are not part of the sources. The specification fixes what each
  constant means; the numbers are those of the CMSIS-RTOS2 API.
\<close>

text \<open>
  Modelled from the spec: the object constants of the absent \<^verbatim>\<open>rtx_os.h\<close>: the kind tag
  of an Event-Flags object, the lifecycle states Inactive and Active, and the ownership
  bit of a control block the subsystem allocated.
\<close>

definition osRtxIdEventFlags :: u8 where
  "osRtxIdEventFlags = 3"

definition osRtxObjectInactive :: u8 where
  "osRtxObjectInactive = 0"

definition osRtxObjectActive :: u8 where
  "osRtxObjectActive = 1"

definition osRtxFlagSystemObject :: u8 where
  "osRtxFlagSystemObject = 1"

text \<open>
  Modelled from the spec: the wait options of the absent \<^verbatim>\<open>cmsis_os2.h\<close>: wait for all
  flags (otherwise for any), and do not clear the flags that were waited for.
\<close>

definition osFlagsWaitAll :: u32 where
  "osFlagsWaitAll = 1"

definition osFlagsNoClear :: u32 where
  "osFlagsNoClear = 2"

text \<open>
  Modelled from the spec: the number of usable flags of the absent \<^verbatim>\<open>rtx_os.h\<close>: a flag
  word has 31 usable bits, bit 31 is reserved to tell error codes from flag values.
\<close>

definition osRtxEventFlagsLimit :: nat where
  "osRtxEventFlagsLimit = 31"

text \<open>
  Modelled from the spec: the status codes of the absent \<^verbatim>\<open>cmsis_os2.h\<close> (the enumeration
  \<^verbatim>\<open>osStatus_t\<close>): success, and the generic, timeout, resource, parameter, no-memory and
  ISR errors, all negative.
\<close>

definition osOK :: int where
  "osOK = 0"

definition osError :: int where
  "osError = - 1"

definition osErrorTimeout :: int where
  "osErrorTimeout = - 2"

definition osErrorResource :: int where
  "osErrorResource = - 3"

definition osErrorParameter :: int where
  "osErrorParameter = - 4"

definition osErrorNoMemory :: int where
  "osErrorNoMemory = - 5"

definition osErrorISR :: int where
  "osErrorISR = - 6"

text \<open>
  Modelled from the spec: the error codes of the absent \<^verbatim>\<open>rtx_lib.h\<close> that only the
  event recorder sees: kernel not running, and invalid control block.
\<close>

definition osRtxErrorKernelNotRunning :: int where
  "osRtxErrorKernelNotRunning = - 9"

definition osRtxErrorInvalidControlBlock :: int where
  "osRtxErrorInvalidControlBlock = - 10"

text \<open>
  Modelled from the spec: \<^verbatim>\<open>sizeof(os_event_flags_t)\<close>; the structure is declared in
  \<^verbatim>\<open>rtx_os.h\<close>. Four bytes of tag, state, flags and padding, and three 32-bit fields.
\<close>

definition sizeof_os_event_flags_t :: u32 where
  "sizeof_os_event_flags_t = 16"

text \<open>The C cast \<^verbatim>\<open>(uint32_t)status\<close> of a status code.\<close>

definition as_uint32 :: "int \<Rightarrow> u32" where
  "as_uint32 i = word_of_int i"

subsection \<open>Data model\<close>

text \<open>
  Modelled from the spec: the thread control block \<^verbatim>\<open>os_thread_t\<close> (declared in
  \<^verbatim>\<open>rtx_os.h\<close>). This file reads and writes \<^verbatim>\<open>wait_flags\<close> and \<^verbatim>\<open>flags_options\<close>; the
  scheduler keeps the thread's state and the value its wait returns.
\<close>

datatype thread_state =
  osRtxThreadInactive | osRtxThreadReady | osRtxThreadRunning | osRtxThreadWaitingEventFlags

record os_thread_t =
  thread_state :: thread_state
  wait_flags :: u32
  flags_options :: u8
  wait_result :: u32

text \<open>
  Modelled from the spec: the control block \<^verbatim>\<open>os_event_flags_t\<close> (declared in the absent
  \<^verbatim>\<open>rtx_os.h\<close>), with the fields this file reads and writes. The wait list
  \<^verbatim>\<open>thread_list\<close> is the sequence of the threads linked through \<^verbatim>\<open>thread_next\<close>, head
  first and in arrival order; the empty list is the \<^verbatim>\<open>NULL\<close> head.
\<close>

record os_event_flags_t =
  id' :: u8
  state :: u8
  flags :: u8
  name :: "string option"
  thread_list :: "ptr list"
  event_flags :: u32

text \<open>
  Modelled from the spec: the attributes \<^verbatim>\<open>osEventFlagsAttr_t\<close> of the absent
  \<^verbatim>\<open>cmsis_os2.h\<close>: an optional name, and an optional caller-supplied control block with
  its size.
\<close>

record osEventFlagsAttr_t =
  attr_name :: "string option"
  attr_bits :: u32
  cb_mem :: ptr
  cb_size :: u32

text \<open>
  Modelled from the spec: the event recorder (\<^verbatim>\<open>rtx_evr.c\<close>, not part of the sources):
  every \<^verbatim>\<open>EvrRtxEventFlags*\<close> call records one event with its arguments, and does
  nothing else.
\<close>

datatype evr =
  EvrRtxEventFlagsError ptr int
  | EvrRtxEventFlagsNew "osEventFlagsAttr_t option"
  | EvrRtxEventFlagsCreated ptr "string option"
  | EvrRtxEventFlagsGetName ptr "string option"
  | EvrRtxEventFlagsSet ptr u32
  | EvrRtxEventFlagsSetDone ptr u32
  | EvrRtxEventFlagsClear ptr u32
  | EvrRtxEventFlagsClearDone ptr u32
  | EvrRtxEventFlagsGet ptr u32
  | EvrRtxEventFlagsWait ptr u32 u32 u32
  | EvrRtxEventFlagsWaitPending ptr u32 u32 u32
  | EvrRtxEventFlagsWaitTimeout ptr
  | EvrRtxEventFlagsWaitCompleted ptr u32 u32 u32
  | EvrRtxEventFlagsWaitNotCompleted ptr u32 u32
  | EvrRtxEventFlagsDelete ptr
  | EvrRtxEventFlagsDestroyed ptr

text \<open>
  Modelled from the spec: the kernel state the file works on. \<open>efs\<close> is memory read through
  \<^verbatim>\<open>os_event_flags_t *\<close>, \<open>threads\<close> memory read through \<^verbatim>\<open>os_thread_t *\<close>. The other
  fields are the parts of \<^verbatim>\<open>osRtxInfo\<close> and of the processor the file touches:
  the running thread, the ready list, the queue of objects registered for post ISR
  processing, the number of times the dispatch point was reached, the free blocks of the
  Event-Flags pool (\<open>None\<close>: no pool configured) and of the common heap, the registered
  post-processing callback, the interrupt mask and the handler mode.
\<close>

record rtx =
  efs :: "ptr \<Rightarrow> os_event_flags_t"
  threads :: "ptr \<Rightarrow> os_thread_t"
  thread_run_curr :: ptr
  thread_ready :: "ptr list"
  isr_queue :: "ptr list"
  dispatched :: nat
  mpi_event_flags :: "ptr list option"
  mem_common :: "ptr list"
  post_process_event_flags :: bool
  PRIMASK :: u32
  irq_mode :: bool
  evr_log :: "evr list"

definition Evr :: "rtx \<Rightarrow> evr \<Rightarrow> rtx" where
  "Evr s e = s\<lparr>evr_log := evr_log s @ [e]\<rparr>"

subsection \<open>Processor intrinsics\<close>

text \<open>
  Modelled from the spec: the CMSIS-Core intrinsics \<^verbatim>\<open>__get_PRIMASK\<close>,
  \<^verbatim>\<open>__disable_irq\<close> and \<^verbatim>\<open>__enable_irq\<close>, which read, set and clear the global
  interrupt mask.
\<close>

definition get_PRIMASK :: "rtx \<Rightarrow> u32" where
  "get_PRIMASK s = PRIMASK s"

definition disable_irq :: "rtx \<Rightarrow> rtx" where
  "disable_irq s = s\<lparr>PRIMASK := 1\<rparr>"

definition enable_irq :: "rtx \<Rightarrow> rtx" where
  "enable_irq s = s\<lparr>PRIMASK := 0\<rparr>"

text \<open>
  Modelled from the spec: the macro \<^verbatim>\<open>IsIrqMode()\<close> of the absent \<^verbatim>\<open>rtx_lib.h\<close>: the
  caller runs as an interrupt handler.
\<close>

definition IsIrqMode :: "rtx \<Rightarrow> bool" where
  "IsIrqMode s = irq_mode s"

text \<open>
  Modelled from the spec: the macro \<^verbatim>\<open>IsIrqMasked()\<close> of the absent \<^verbatim>\<open>rtx_lib.h\<close>:
  the caller runs with interrupts masked.
\<close>

definition IsIrqMasked :: "rtx \<Rightarrow> bool" where
  "IsIrqMasked s = (PRIMASK s \<noteq> 0)"

subsection \<open>Helper functions\<close>

text \<open>The write \<^verbatim>\<open>ef->event_flags = v\<close>.\<close>

definition store_event_flags :: "rtx \<Rightarrow> ptr \<Rightarrow> u32 \<Rightarrow> rtx" where
  "store_event_flags s ef v = s\<lparr>efs := (efs s)(ef := (efs s ef)\<lparr>event_flags := v\<rparr>)\<rparr>"

text \<open>\<^verbatim>\<open>EventFlagsSet\<close>: returns the event flags after setting.\<close>

definition EventFlagsSet :: "rtx \<Rightarrow> ptr \<Rightarrow> u32 \<Rightarrow> u32 \<times> rtx" where
  "EventFlagsSet s ef flgs =
     (let primask = get_PRIMASK s;
          s1 = disable_irq s;
          s2 = store_event_flags s1 ef (event_flags (efs s1 ef) OR flgs);
          evf = event_flags (efs s2 ef);
          s3 = (if primask = 0 then enable_irq s2 else s2)
      in (evf, s3))"

text \<open>\<^verbatim>\<open>EventFlagsClear\<close>: returns the event flags before clearing.\<close>

definition EventFlagsClear :: "rtx \<Rightarrow> ptr \<Rightarrow> u32 \<Rightarrow> u32 \<times> rtx" where
  "EventFlagsClear s ef flgs =
     (let primask = get_PRIMASK s;
          s1 = disable_irq s;
          evf = event_flags (efs s1 ef);
          s2 = store_event_flags s1 ef (event_flags (efs s1 ef) AND NOT flgs);
          s3 = (if primask = 0 then enable_irq s2 else s2)
      in (evf, s3))"

text \<open>
  \<^verbatim>\<open>EventFlagsCheck\<close>: returns the event flags before clearing, or 0 if the specified
  flags have not been set.
\<close>

definition EventFlagsCheck :: "rtx \<Rightarrow> ptr \<Rightarrow> u32 \<Rightarrow> u32 \<Rightarrow> u32 \<times> rtx" where
  "EventFlagsCheck s ef flgs options =
     (if options AND osFlagsNoClear = 0 then
        (let primask = get_PRIMASK s;
             s1 = disable_irq s;
             evf = event_flags (efs s1 ef);
             (evf', s2) =
               (if (options AND osFlagsWaitAll \<noteq> 0 \<and> evf AND flgs \<noteq> flgs) \<or>
                   (options AND osFlagsWaitAll = 0 \<and> evf AND flgs = 0)
                then (0, s1)
                else (evf, store_event_flags s1 ef (event_flags (efs s1 ef) AND NOT flgs)));
             s3 = (if primask = 0 then enable_irq s2 else s2)
         in (evf', s3))
      else
        (let evf = event_flags (efs s ef)
         in if (options AND osFlagsWaitAll \<noteq> 0 \<and> evf AND flgs \<noteq> flgs) \<or>
               (options AND osFlagsWaitAll = 0 \<and> evf AND flgs = 0)
            then (0, s)
            else (evf, s)))"

subsection \<open>Services of the scheduler and of the allocator\<close>

text \<open>
  The scheduler functions this file calls live in \<^verbatim>\<open>rtx_thread.c\<close> and
  \<^verbatim>\<open>rtx_system.c\<close>, which are not part of the sources. The specification gives their
  contracts: get-current-thread; remove-thread-from-wait-list; move a thread out of
  suspended state with a given wait result; yield/dispatch; register an object for
  deferred post-processing. The wait list is FIFO by arrival.
\<close>

text \<open>Modelled from the spec: get-current-thread; \<^verbatim>\<open>NULL\<close> before the kernel runs.\<close>

definition osRtxThreadGetRunning :: "rtx \<Rightarrow> ptr" where
  "osRtxThreadGetRunning s = thread_run_curr s"

text \<open>
  Modelled from the spec: removes the thread from the wait list that holds it. A thread
  is in at most one wait list, so taking it out of every list is taking it out of its own.
\<close>

definition osRtxThreadListRemove :: "rtx \<Rightarrow> ptr \<Rightarrow> rtx" where
  "osRtxThreadListRemove s thread =
     s\<lparr>efs := (\<lambda>p. (efs s p)\<lparr>thread_list := removeAll thread (thread_list (efs s p))\<rparr>)\<rparr>"

text \<open>Modelled from the spec: takes the first thread off an object's wait list.\<close>

definition osRtxThreadListGet :: "rtx \<Rightarrow> ptr \<Rightarrow> ptr \<times> rtx" where
  "osRtxThreadListGet s object =
     (case thread_list (efs s object) of
        [] \<Rightarrow> (NULL, s)
      | thread # rest \<Rightarrow>
          (thread, s\<lparr>efs := (efs s)(object := (efs s object)\<lparr>thread_list := rest\<rparr>)\<rparr>))"

text \<open>Modelled from the spec: appends a thread to an object's wait list.\<close>

definition osRtxThreadListPut :: "rtx \<Rightarrow> ptr \<Rightarrow> ptr \<Rightarrow> rtx" where
  "osRtxThreadListPut s object thread =
     s\<lparr>efs := (efs s)(object :=
        (efs s object)\<lparr>thread_list := thread_list (efs s object) @ [thread]\<rparr>)\<rparr>"

text \<open>
  Modelled from the spec: the thread leaves its wait with the given result and joins the
  ready threads. The third argument is \<^verbatim>\<open>FALSE\<close> at every call in this file; the model
  takes it and does not depend on it.
\<close>

definition osRtxThreadWaitExit :: "rtx \<Rightarrow> ptr \<Rightarrow> u32 \<Rightarrow> bool \<Rightarrow> rtx" where
  "osRtxThreadWaitExit s thread ret_val dispatch =
     s\<lparr>threads := (threads s)(thread :=
          (threads s thread)\<lparr>thread_state := osRtxThreadReady, wait_result := ret_val\<rparr>),
       thread_ready := thread_ready s @ [thread]\<rparr>"

text \<open>
  Modelled from the spec: the running thread enters the given blocked state and the first
  ready thread runs. The source tests the result, so the call can refuse; the model
  refuses when no other thread is ready. Time is not part of the model.
\<close>

definition osRtxThreadWaitEnter :: "rtx \<Rightarrow> thread_state \<Rightarrow> u32 \<Rightarrow> bool \<times> rtx" where
  "osRtxThreadWaitEnter s st timeout =
     (case thread_ready s of
        [] \<Rightarrow> (False, s)
      | thread # rest \<Rightarrow>
          (True,
           s\<lparr>threads := (threads s)
                (thread_run_curr s := (threads s (thread_run_curr s))\<lparr>thread_state := st\<rparr>,
                 thread := (threads s thread)\<lparr>thread_state := osRtxThreadRunning\<rparr>),
             thread_ready := rest,
             thread_run_curr := thread\<rparr>))"

text \<open>
  Modelled from the spec: the dispatch point. Which thread runs next is the scheduler's
  choice; the model counts that the point was reached.
\<close>

definition osRtxThreadDispatch :: "rtx \<Rightarrow> ptr \<Rightarrow> rtx" where
  "osRtxThreadDispatch s thread = s\<lparr>dispatched := Suc (dispatched s)\<rparr>"

text \<open>Modelled from the spec: registers the object for post ISR processing.\<close>

definition osRtxPostProcess :: "rtx \<Rightarrow> ptr \<Rightarrow> rtx" where
  "osRtxPostProcess s object = s\<lparr>isr_queue := isr_queue s @ [object]\<rparr>"

text \<open>
  Modelled from the spec: the allocator (\<^verbatim>\<open>rtx_mempool.c\<close>, \<^verbatim>\<open>rtx_memory.c\<close>, not part of
  the sources). Pool-allocate hands out the first free block of the Event-Flags pool; an
  allocation returns \<^verbatim>\<open>NULL\<close> when no block is left.
\<close>

definition osRtxMemoryPoolAlloc :: "rtx \<Rightarrow> ptr \<times> rtx" where
  "osRtxMemoryPoolAlloc s =
     (case mpi_event_flags s of
        Some (block # rest) \<Rightarrow> (block, s\<lparr>mpi_event_flags := Some rest\<rparr>)
      | _ \<Rightarrow> (NULL, s))"

text \<open>
  Modelled from the spec: the general allocator; it hands out the first free block of
  the common heap.
\<close>

definition osRtxMemoryAlloc :: "rtx \<Rightarrow> u32 \<Rightarrow> u32 \<Rightarrow> ptr \<times> rtx" where
  "osRtxMemoryAlloc s sz ty =
     (case mem_common s of
        block # rest \<Rightarrow> (block, s\<lparr>mem_common := rest\<rparr>)
      | [] \<Rightarrow> (NULL, s))"

text \<open>Modelled from the spec: pool-free; the block returns to the Event-Flags pool.\<close>

definition osRtxMemoryPoolFree :: "rtx \<Rightarrow> ptr \<Rightarrow> rtx" where
  "osRtxMemoryPoolFree s block =
     (case mpi_event_flags s of
        Some blocks \<Rightarrow> s\<lparr>mpi_event_flags := Some (block # blocks)\<rparr>
      | None \<Rightarrow> s)"

text \<open>Modelled from the spec: general free; the block returns to the common heap.\<close>

definition osRtxMemoryFree :: "rtx \<Rightarrow> ptr \<Rightarrow> rtx" where
  "osRtxMemoryFree s block = s\<lparr>mem_common := block # mem_common s\<rparr>"

subsection \<open>Post ISR processing\<close>

text \<open>
  The walk over the wait list. The cursor \<^verbatim>\<open>thread\<close> with its successors is the list
  still to visit: \<^verbatim>\<open>thread_next\<close> is read before the thread is taken out of the list.
\<close>

fun osRtxEventFlagsPostProcess_loop :: "rtx \<Rightarrow> ptr \<Rightarrow> ptr list \<Rightarrow> rtx" where
  "osRtxEventFlagsPostProcess_loop s ef [] = s"
| "osRtxEventFlagsPostProcess_loop s ef (thread # thread_next) =
     (let (evf, s1) = EventFlagsCheck s ef (wait_flags (threads s thread))
                        (ucast (flags_options (threads s thread)))
      in if evf \<noteq> 0 then
           (let s2 = osRtxThreadListRemove s1 thread;
                s3 = osRtxThreadWaitExit s2 thread evf False;
                s4 = Evr s3 (EvrRtxEventFlagsWaitCompleted ef (wait_flags (threads s3 thread))
                               (ucast (flags_options (threads s3 thread))) evf)
            in osRtxEventFlagsPostProcess_loop s4 ef thread_next)
         else osRtxEventFlagsPostProcess_loop s1 ef thread_next)"

definition osRtxEventFlagsPostProcess :: "rtx \<Rightarrow> ptr \<Rightarrow> rtx" where
  "osRtxEventFlagsPostProcess s ef =
     (if state (efs s ef) = osRtxObjectInactive then s
      else osRtxEventFlagsPostProcess_loop s ef (thread_list (efs s ef)))"

subsection \<open>Service calls\<close>

text \<open>\<^verbatim>\<open>svcRtxEventFlagsNew\<close>, from "Allocate object memory if not provided" on.\<close>

definition svcRtxEventFlagsNew_init :: "rtx \<Rightarrow> string option \<Rightarrow> ptr \<Rightarrow> ptr \<times> rtx" where
  "svcRtxEventFlagsNew_init s nm ef0 =
     (let (ef, flgs, s1) =
            (if ef0 = NULL then
               (let (b, s') = (if mpi_event_flags s \<noteq> None then osRtxMemoryPoolAlloc s
                               else osRtxMemoryAlloc s sizeof_os_event_flags_t 1)
                in (b, osRtxFlagSystemObject, s'))
             else (ef0, 0, s))
      in if ef \<noteq> NULL then
           (let s2 = s1\<lparr>efs := (efs s1)(ef :=
                       \<lparr>id' = osRtxIdEventFlags, state = osRtxObjectActive, flags = flgs,
                        name = nm, thread_list = [], event_flags = 0\<rparr>)\<rparr>;
                s3 = s2\<lparr>post_process_event_flags := True\<rparr>;
                s4 = Evr s3 (EvrRtxEventFlagsCreated ef (name (efs s3 ef)))
            in (ef, s4))
         else (NULL, Evr s1 (EvrRtxEventFlagsError NULL osErrorNoMemory)))"

definition svcRtxEventFlagsNew :: "rtx \<Rightarrow> osEventFlagsAttr_t option \<Rightarrow> ptr \<times> rtx" where
  "svcRtxEventFlagsNew s attr =
     (case attr of
        Some a \<Rightarrow>
          if cb_mem a \<noteq> NULL then
            (if cb_mem a AND 3 \<noteq> 0 \<or> cb_size a < sizeof_os_event_flags_t
             then (NULL, Evr s (EvrRtxEventFlagsError NULL osRtxErrorInvalidControlBlock))
             else svcRtxEventFlagsNew_init s (attr_name a) (cb_mem a))
          else
            (if cb_size a \<noteq> 0
             then (NULL, Evr s (EvrRtxEventFlagsError NULL osRtxErrorInvalidControlBlock))
             else svcRtxEventFlagsNew_init s (attr_name a) (cb_mem a))
      | None \<Rightarrow> svcRtxEventFlagsNew_init s None NULL)"

definition svcRtxEventFlagsGetName :: "rtx \<Rightarrow> ptr \<Rightarrow> string option \<times> rtx" where
  "svcRtxEventFlagsGetName s ef =
     (if ef = NULL \<or> id' (efs s ef) \<noteq> osRtxIdEventFlags
      then (None, Evr s (EvrRtxEventFlagsGetName ef None))
      else if state (efs s ef) = osRtxObjectInactive
      then (None, Evr s (EvrRtxEventFlagsGetName ef None))
      else (name (efs s ef), Evr s (EvrRtxEventFlagsGetName ef (name (efs s ef)))))"

text \<open>The walk of \<^verbatim>\<open>svcRtxEventFlagsSet\<close>; it carries the value \<^verbatim>\<open>event_flags\<close> to return.\<close>

fun svcRtxEventFlagsSet_loop :: "rtx \<Rightarrow> ptr \<Rightarrow> ptr list \<Rightarrow> u32 \<Rightarrow> u32 \<times> rtx" where
  "svcRtxEventFlagsSet_loop s ef [] evf = (evf, s)"
| "svcRtxEventFlagsSet_loop s ef (thread # thread_next) evf =
     (let (evf0, s1) = EventFlagsCheck s ef (wait_flags (threads s thread))
                         (ucast (flags_options (threads s thread)))
      in if evf0 \<noteq> 0 then
           (let evf' = (if ucast (flags_options (threads s1 thread)) AND osFlagsNoClear = 0
                        then evf0 AND NOT (wait_flags (threads s1 thread))
                        else evf0);
                s2 = osRtxThreadListRemove s1 thread;
                s3 = osRtxThreadWaitExit s2 thread evf0 False;
                s4 = Evr s3 (EvrRtxEventFlagsWaitCompleted ef (wait_flags (threads s3 thread))
                               (ucast (flags_options (threads s3 thread))) evf0)
            in svcRtxEventFlagsSet_loop s4 ef thread_next evf')
         else svcRtxEventFlagsSet_loop s1 ef thread_next evf)"

definition svcRtxEventFlagsSet :: "rtx \<Rightarrow> ptr \<Rightarrow> u32 \<Rightarrow> u32 \<times> rtx" where
  "svcRtxEventFlagsSet s ef flgs =
     (if ef = NULL \<or> id' (efs s ef) \<noteq> osRtxIdEventFlags \<or>
         flgs AND NOT (push_bit osRtxEventFlagsLimit 1 - 1) \<noteq> 0
      then (as_uint32 osErrorParameter, Evr s (EvrRtxEventFlagsError ef osErrorParameter))
      else if state (efs s ef) = osRtxObjectInactive
      then (as_uint32 osErrorResource, Evr s (EvrRtxEventFlagsError ef osErrorResource))
      else
        (let (evf, s1) = EventFlagsSet s ef flgs;
             (evf', s2) = svcRtxEventFlagsSet_loop s1 ef (thread_list (efs s1 ef)) evf;
             s3 = osRtxThreadDispatch s2 NULL;
             s4 = Evr s3 (EvrRtxEventFlagsSetDone ef evf')
         in (evf', s4)))"

definition svcRtxEventFlagsClear :: "rtx \<Rightarrow> ptr \<Rightarrow> u32 \<Rightarrow> u32 \<times> rtx" where
  "svcRtxEventFlagsClear s ef flgs =
     (if ef = NULL \<or> id' (efs s ef) \<noteq> osRtxIdEventFlags \<or>
         flgs AND NOT (push_bit osRtxEventFlagsLimit 1 - 1) \<noteq> 0
      then (as_uint32 osErrorParameter, Evr s (EvrRtxEventFlagsError ef osErrorParameter))
      else if state (efs s ef) = osRtxObjectInactive
      then (as_uint32 osErrorResource, Evr s (EvrRtxEventFlagsError ef osErrorResource))
      else
        (let (evf, s1) = EventFlagsClear s ef flgs;
             s2 = Evr s1 (EvrRtxEventFlagsClearDone ef evf)
         in (evf, s2)))"

definition svcRtxEventFlagsGet :: "rtx \<Rightarrow> ptr \<Rightarrow> u32 \<times> rtx" where
  "svcRtxEventFlagsGet s ef =
     (if ef = NULL \<or> id' (efs s ef) \<noteq> osRtxIdEventFlags
      then (0, Evr s (EvrRtxEventFlagsGet ef 0))
      else if state (efs s ef) = osRtxObjectInactive
      then (0, Evr s (EvrRtxEventFlagsGet ef 0))
      else (event_flags (efs s ef), Evr s (EvrRtxEventFlagsGet ef (event_flags (efs s ef)))))"

definition svcRtxEventFlagsWait :: "rtx \<Rightarrow> ptr \<Rightarrow> u32 \<Rightarrow> u32 \<Rightarrow> u32 \<Rightarrow> u32 \<times> rtx" where
  "svcRtxEventFlagsWait s ef flgs options timeout =
     (let running_thread = osRtxThreadGetRunning s
      in if running_thread = NULL
         then (as_uint32 osError, Evr s (EvrRtxEventFlagsError ef osRtxErrorKernelNotRunning))
         else if ef = NULL \<or> id' (efs s ef) \<noteq> osRtxIdEventFlags \<or>
                 flgs AND NOT (push_bit osRtxEventFlagsLimit 1 - 1) \<noteq> 0
         then (as_uint32 osErrorParameter, Evr s (EvrRtxEventFlagsError ef osErrorParameter))
         else if state (efs s ef) = osRtxObjectInactive
         then (as_uint32 osErrorResource, Evr s (EvrRtxEventFlagsError ef osErrorResource))
         else
           (let (evf, s1) = EventFlagsCheck s ef flgs options
            in if evf \<noteq> 0
               then (evf, Evr s1 (EvrRtxEventFlagsWaitCompleted ef flgs options evf))
               else if timeout \<noteq> 0 then
                 (let s2 = Evr s1 (EvrRtxEventFlagsWaitPending ef flgs options timeout);
                      s3 = s2\<lparr>threads := (threads s2)(running_thread :=
                             (threads s2 running_thread)
                               \<lparr>wait_flags := flgs, flags_options := ucast options\<rparr>)\<rparr>;
                      (entered, s4) = osRtxThreadWaitEnter s3 osRtxThreadWaitingEventFlags timeout;
                      s5 = (if entered then osRtxThreadListPut s4 ef running_thread
                            else Evr s4 (EvrRtxEventFlagsWaitTimeout ef))
                  in (as_uint32 osErrorTimeout, s5))
               else
                 (as_uint32 osErrorResource,
                  Evr s1 (EvrRtxEventFlagsWaitNotCompleted ef flgs options))))"

text \<open>
  The \<^verbatim>\<open>do ... while (ef->thread_list != NULL)\<close> of \<^verbatim>\<open>svcRtxEventFlagsDelete\<close>: the body
  runs once before the list is tested.
\<close>

function svcRtxEventFlagsDelete_loop :: "rtx \<Rightarrow> ptr \<Rightarrow> rtx" where
  "svcRtxEventFlagsDelete_loop s ef =
     (let (thread, s1) = osRtxThreadListGet s ef;
          s2 = osRtxThreadWaitExit s1 thread (as_uint32 osErrorResource) False
      in if thread_list (efs s2 ef) \<noteq> [] then svcRtxEventFlagsDelete_loop s2 ef else s2)"
  by pat_completeness auto
termination
proof (relation "measure (\<lambda>(s, ef). length (thread_list (efs s ef)))")
  show "wf (measure (\<lambda>(s, ef). length (thread_list (efs s ef))))"
    by simp
next
  fix s ef x thread s1 s2
  assume get: "x = osRtxThreadListGet s ef" "(thread, s1) = x"
    and exit: "s2 = osRtxThreadWaitExit s1 thread (as_uint32 osErrorResource) False"
    and more: "thread_list (efs s2 ef) \<noteq> []"
  show "((s2, ef), (s, ef)) \<in> measure (\<lambda>(s, ef). length (thread_list (efs s ef)))"
    using get exit more
    by (cases "thread_list (efs s ef)")
       (auto simp: osRtxThreadListGet_def osRtxThreadWaitExit_def)
qed

declare svcRtxEventFlagsDelete_loop.simps [simp del]

definition svcRtxEventFlagsDelete :: "rtx \<Rightarrow> ptr \<Rightarrow> int \<times> rtx" where
  "svcRtxEventFlagsDelete s ef =
     (if ef = NULL \<or> id' (efs s ef) \<noteq> osRtxIdEventFlags
      then (osErrorParameter, Evr s (EvrRtxEventFlagsError ef osErrorParameter))
      else if state (efs s ef) = osRtxObjectInactive
      then (osErrorResource, Evr s (EvrRtxEventFlagsError ef osErrorResource))
      else
        (let s1 = s\<lparr>efs := (efs s)(ef := (efs s ef)\<lparr>state := osRtxObjectInactive\<rparr>)\<rparr>;
             s2 = (if thread_list (efs s1 ef) \<noteq> []
                   then osRtxThreadDispatch (svcRtxEventFlagsDelete_loop s1 ef) NULL
                   else s1);
             s3 = (if flags (efs s2 ef) AND osRtxFlagSystemObject \<noteq> 0
                   then (if mpi_event_flags s2 \<noteq> None then osRtxMemoryPoolFree s2 ef
                         else osRtxMemoryFree s2 ef)
                   else s2);
             s4 = Evr s3 (EvrRtxEventFlagsDestroyed ef)
         in (osOK, s4)))"

text \<open>
  The states the \<^verbatim>\<open>do ... while\<close> of \<^verbatim>\<open>svcRtxEventFlagsDelete\<close> passes through: the
  state after each pass of the body, in order.
\<close>

function svcRtxEventFlagsDelete_loop_trace :: "rtx \<Rightarrow> ptr \<Rightarrow> rtx list" where
  "svcRtxEventFlagsDelete_loop_trace s ef =
     (let (thread, s1) = osRtxThreadListGet s ef;
          s2 = osRtxThreadWaitExit s1 thread (as_uint32 osErrorResource) False
      in s2 # (if thread_list (efs s2 ef) \<noteq> []
               then svcRtxEventFlagsDelete_loop_trace s2 ef else []))"
  by pat_completeness auto
termination
proof (relation "measure (\<lambda>(s, ef). length (thread_list (efs s ef)))")
  show "wf (measure (\<lambda>(s, ef). length (thread_list (efs s ef))))"
    by simp
next
  fix s ef x thread s1 s2
  assume get: "x = osRtxThreadListGet s ef" "(thread, s1) = x"
    and exit: "s2 = osRtxThreadWaitExit s1 thread (as_uint32 osErrorResource) False"
    and more: "thread_list (efs s2 ef) \<noteq> []"
  show "((s2, ef), (s, ef)) \<in> measure (\<lambda>(s, ef). length (thread_list (efs s ef)))"
    using get exit more
    by (cases "thread_list (efs s ef)")
       (auto simp: osRtxThreadListGet_def osRtxThreadWaitExit_def)
qed

declare svcRtxEventFlagsDelete_loop_trace.simps [simp del]

text \<open>
  The states \<^verbatim>\<open>svcRtxEventFlagsDelete\<close> passes through once the checks have passed,
  statement by statement: after \<^verbatim>\<open>ef->state = osRtxObjectInactive\<close>; after each pass of
  the drain and after its \<^verbatim>\<open>osRtxThreadDispatch\<close>, when the wait list was not empty;
  after the free; after \<^verbatim>\<open>EvrRtxEventFlagsDestroyed\<close>.
\<close>

definition svcRtxEventFlagsDelete_trace :: "rtx \<Rightarrow> ptr \<Rightarrow> rtx list" where
  "svcRtxEventFlagsDelete_trace s ef =
     (let s1 = s\<lparr>efs := (efs s)(ef := (efs s ef)\<lparr>state := osRtxObjectInactive\<rparr>)\<rparr>;
          drain = (if thread_list (efs s1 ef) \<noteq> []
                   then (let passes = svcRtxEventFlagsDelete_loop_trace s1 ef
                         in passes @ [osRtxThreadDispatch (last passes) NULL])
                   else []);
          s2 = last (s1 # drain);
          s3 = (if flags (efs s2 ef) AND osRtxFlagSystemObject \<noteq> 0
                then (if mpi_event_flags s2 \<noteq> None then osRtxMemoryPoolFree s2 ef
                      else osRtxMemoryFree s2 ef)
                else s2);
          s4 = Evr s3 (EvrRtxEventFlagsDestroyed ef)
      in s1 # drain @ [s3, s4])"

subsection \<open>ISR calls\<close>

definition isrRtxEventFlagsSet :: "rtx \<Rightarrow> ptr \<Rightarrow> u32 \<Rightarrow> u32 \<times> rtx" where
  "isrRtxEventFlagsSet s ef flgs =
     (if ef = NULL \<or> id' (efs s ef) \<noteq> osRtxIdEventFlags \<or>
         flgs AND NOT (push_bit osRtxEventFlagsLimit 1 - 1) \<noteq> 0
      then (as_uint32 osErrorParameter, Evr s (EvrRtxEventFlagsError ef osErrorParameter))
      else if state (efs s ef) = osRtxObjectInactive
      then (as_uint32 osErrorResource, Evr s (EvrRtxEventFlagsError ef osErrorResource))
      else
        (let (evf, s1) = EventFlagsSet s ef flgs;
             s2 = osRtxPostProcess s1 ef;
             s3 = Evr s2 (EvrRtxEventFlagsSetDone ef evf)
         in (evf, s3)))"

definition isrRtxEventFlagsWait :: "rtx \<Rightarrow> ptr \<Rightarrow> u32 \<Rightarrow> u32 \<Rightarrow> u32 \<Rightarrow> u32 \<times> rtx" where
  "isrRtxEventFlagsWait s ef flgs options timeout =
     (if ef = NULL \<or> id' (efs s ef) \<noteq> osRtxIdEventFlags \<or> timeout \<noteq> 0 \<or>
         flgs AND NOT (push_bit osRtxEventFlagsLimit 1 - 1) \<noteq> 0
      then (as_uint32 osErrorParameter, Evr s (EvrRtxEventFlagsError ef osErrorParameter))
      else if state (efs s ef) = osRtxObjectInactive
      then (as_uint32 osErrorResource, Evr s (EvrRtxEventFlagsError ef osErrorResource))
      else
        (let (evf, s1) = EventFlagsCheck s ef flgs options
         in if evf \<noteq> 0
            then (evf, Evr s1 (EvrRtxEventFlagsWaitCompleted ef flgs options evf))
            else (as_uint32 osErrorResource,
                  Evr s1 (EvrRtxEventFlagsWaitNotCompleted ef flgs options))))"

subsection \<open>Public API\<close>

text \<open>
  Modelled from the spec: the supervisor-call trampolines \<^verbatim>\<open>__svcEventFlags*\<close> (generated
  by the \<^verbatim>\<open>SVC0_n\<close> macros of the absent \<^verbatim>\<open>rtx_lib.h\<close>) run the service call of the same
  name with the same arguments.
\<close>

definition osEventFlagsNew :: "rtx \<Rightarrow> osEventFlagsAttr_t option \<Rightarrow> ptr \<times> rtx" where
  "osEventFlagsNew s attr =
     (let s1 = Evr s (EvrRtxEventFlagsNew attr)
      in if IsIrqMode s1 \<or> IsIrqMasked s1
         then (NULL, Evr s1 (EvrRtxEventFlagsError NULL osErrorISR))
         else svcRtxEventFlagsNew s1 attr)"

definition osEventFlagsGetName :: "rtx \<Rightarrow> ptr \<Rightarrow> string option \<times> rtx" where
  "osEventFlagsGetName s ef_id =
     (if IsIrqMode s \<or> IsIrqMasked s
      then (None, Evr s (EvrRtxEventFlagsGetName ef_id None))
      else svcRtxEventFlagsGetName s ef_id)"

definition osEventFlagsSet :: "rtx \<Rightarrow> ptr \<Rightarrow> u32 \<Rightarrow> u32 \<times> rtx" where
  "osEventFlagsSet s ef_id flgs =
     (let s1 = Evr s (EvrRtxEventFlagsSet ef_id flgs)
      in if IsIrqMode s1 \<or> IsIrqMasked s1
         then isrRtxEventFlagsSet s1 ef_id flgs
         else svcRtxEventFlagsSet s1 ef_id flgs)"

definition osEventFlagsClear :: "rtx \<Rightarrow> ptr \<Rightarrow> u32 \<Rightarrow> u32 \<times> rtx" where
  "osEventFlagsClear s ef_id flgs =
     (let s1 = Evr s (EvrRtxEventFlagsClear ef_id flgs)
      in if IsIrqMode s1 \<or> IsIrqMasked s1
         then svcRtxEventFlagsClear s1 ef_id flgs
         else svcRtxEventFlagsClear s1 ef_id flgs)"

definition osEventFlagsGet :: "rtx \<Rightarrow> ptr \<Rightarrow> u32 \<times> rtx" where
  "osEventFlagsGet s ef_id =
     (if IsIrqMode s \<or> IsIrqMasked s
      then svcRtxEventFlagsGet s ef_id
      else svcRtxEventFlagsGet s ef_id)"

definition osEventFlagsWait :: "rtx \<Rightarrow> ptr \<Rightarrow> u32 \<Rightarrow> u32 \<Rightarrow> u32 \<Rightarrow> u32 \<times> rtx" where
  "osEventFlagsWait s ef_id flgs options timeout =
     (let s1 = Evr s (EvrRtxEventFlagsWait ef_id flgs options timeout)
      in if IsIrqMode s1 \<or> IsIrqMasked s1
         then isrRtxEventFlagsWait s1 ef_id flgs options timeout
         else svcRtxEventFlagsWait s1 ef_id flgs options timeout)"

definition osEventFlagsDelete :: "rtx \<Rightarrow> ptr \<Rightarrow> int \<times> rtx" where
  "osEventFlagsDelete s ef_id =
     (let s1 = Evr s (EvrRtxEventFlagsDelete ef_id)
      in if IsIrqMode s1 \<or> IsIrqMasked s1
         then (osErrorISR, Evr s1 (EvrRtxEventFlagsError ef_id osErrorISR))
         else svcRtxEventFlagsDelete s1 ef_id)"

subsection \<open>The vocabulary of the specification\<close>

text \<open>
  The specification speaks of a wait-for-all or wait-for-any condition and of auto-clear.
  These three definitions follow its words: the option word asks for all flags, the
  option word asks for the matched flags to be cleared, and the condition of a wait holds
  on a flag word.
\<close>

definition wait_all :: "u32 \<Rightarrow> bool" where
  "wait_all options = (options AND osFlagsWaitAll \<noteq> 0)"

definition auto_clear :: "u32 \<Rightarrow> bool" where
  "auto_clear options = (options AND osFlagsNoClear = 0)"

definition condition_holds :: "u32 \<Rightarrow> u32 \<Rightarrow> bool \<Rightarrow> bool" where
  "condition_holds flag_word flgs all =
     (if all then flag_word AND flgs = flgs else flag_word AND flgs \<noteq> 0)"

text \<open>
  The validation rule of the specification: the object pointer is non-null and carries
  the Event-Flags kind tag. The caller is in thread context when it neither runs as an
  interrupt handler nor has interrupts masked.
\<close>

definition valid_object :: "rtx \<Rightarrow> ptr \<Rightarrow> bool" where
  "valid_object s ef = (ef \<noteq> NULL \<and> id' (efs s ef) = osRtxIdEventFlags)"

definition thread_context :: "rtx \<Rightarrow> bool" where
  "thread_context s = (\<not> (IsIrqMode s \<or> IsIrqMasked s))"

text \<open>
  The wait/wake bridge of the specification: the walk visits the waiters in arrival
  order, each with its stored mask and options; a waiter whose condition holds on the
  current flag word is satisfied, and with auto-clear it consumes its mask from the flag
  word before the next waiter is looked at. \<open>waiter\<close> reads a thread's stored mask and
  options; \<open>flag_word_after_walk\<close> is the flag word the walk leaves.
\<close>

definition waiter :: "rtx \<Rightarrow> ptr \<Rightarrow> u32 \<times> u32" where
  "waiter s thread =
     (wait_flags (threads s thread), ucast (flags_options (threads s thread)))"

fun flag_word_after_walk :: "u32 \<Rightarrow> (u32 \<times> u32) list \<Rightarrow> u32" where
  "flag_word_after_walk w [] = w"
| "flag_word_after_walk w ((flgs, options) # rest) =
     flag_word_after_walk
       (if condition_holds w flgs (wait_all options) \<and> auto_clear options
        then w AND NOT flgs else w) rest"

text \<open>The invariant of the flag word: bit 31 of the stored value is zero.\<close>

definition bit31_clear :: "rtx \<Rightarrow> ptr \<Rightarrow> bool" where
  "bit31_clear s p = (\<not> bit (event_flags (efs s p)) 31)"

text \<open>
  What can follow a deletion: any sequence of calls of this file other than creation,
  on any object pointers and with any arguments. \<open>exec\<close> runs one call and keeps the
  state; \<open>inactive\<close> says that an object is in the Inactive state.
\<close>

definition inactive :: "rtx \<Rightarrow> ptr \<Rightarrow> bool" where
  "inactive s p = (state (efs s p) = osRtxObjectInactive)"

datatype call =
    Call_osEventFlagsGetName ptr
  | Call_osEventFlagsSet ptr u32
  | Call_osEventFlagsClear ptr u32
  | Call_osEventFlagsGet ptr
  | Call_osEventFlagsWait ptr u32 u32 u32
  | Call_osEventFlagsDelete ptr
  | Call_svcRtxEventFlagsGetName ptr
  | Call_svcRtxEventFlagsSet ptr u32
  | Call_svcRtxEventFlagsClear ptr u32
  | Call_svcRtxEventFlagsGet ptr
  | Call_svcRtxEventFlagsWait ptr u32 u32 u32
  | Call_svcRtxEventFlagsDelete ptr
  | Call_isrRtxEventFlagsSet ptr u32
  | Call_isrRtxEventFlagsWait ptr u32 u32 u32
  | Call_osRtxEventFlagsPostProcess ptr

fun exec :: "rtx \<Rightarrow> call \<Rightarrow> rtx" where
  "exec s (Call_osEventFlagsGetName ef) = snd (osEventFlagsGetName s ef)"
| "exec s (Call_osEventFlagsSet ef flgs) = snd (osEventFlagsSet s ef flgs)"
| "exec s (Call_osEventFlagsClear ef flgs) = snd (osEventFlagsClear s ef flgs)"
| "exec s (Call_osEventFlagsGet ef) = snd (osEventFlagsGet s ef)"
| "exec s (Call_osEventFlagsWait ef flgs options timeout) =
     snd (osEventFlagsWait s ef flgs options timeout)"
| "exec s (Call_osEventFlagsDelete ef) = snd (osEventFlagsDelete s ef)"
| "exec s (Call_svcRtxEventFlagsGetName ef) = snd (svcRtxEventFlagsGetName s ef)"
| "exec s (Call_svcRtxEventFlagsSet ef flgs) = snd (svcRtxEventFlagsSet s ef flgs)"
| "exec s (Call_svcRtxEventFlagsClear ef flgs) = snd (svcRtxEventFlagsClear s ef flgs)"
| "exec s (Call_svcRtxEventFlagsGet ef) = snd (svcRtxEventFlagsGet s ef)"
| "exec s (Call_svcRtxEventFlagsWait ef flgs options timeout) =
     snd (svcRtxEventFlagsWait s ef flgs options timeout)"
| "exec s (Call_svcRtxEventFlagsDelete ef) = snd (svcRtxEventFlagsDelete s ef)"
| "exec s (Call_isrRtxEventFlagsSet ef flgs) = snd (isrRtxEventFlagsSet s ef flgs)"
| "exec s (Call_isrRtxEventFlagsWait ef flgs options timeout) =
     snd (isrRtxEventFlagsWait s ef flgs options timeout)"
| "exec s (Call_osRtxEventFlagsPostProcess ef) = osRtxEventFlagsPostProcess s ef"

subsection \<open>Sample states\<close>

text \<open>
  Concrete kernel states on which the theorems are exercised: zeroed memory with one
  running thread (\<open>boot\<close>); one Active subsystem-owned object at \<open>obj\<close> with flag word
  6 and nobody waiting (\<open>idle\<close>); the same object with flag word 0 and two threads
  waiting, the first for flag 1 with the given options, the second for all of the flags 5
  without clearing (\<open>waiting\<close>).
\<close>

definition zero_ef :: os_event_flags_t where
  "zero_ef = \<lparr>id' = 0, state = 0, flags = 0, name = None, thread_list = [], event_flags = 0\<rparr>"

definition zero_thread :: os_thread_t where
  "zero_thread =
     \<lparr>thread_state = osRtxThreadInactive, wait_flags = 0, flags_options = 0, wait_result = 0\<rparr>"

definition obj :: ptr where
  "obj = 0x20000000"

definition thr1 :: ptr where
  "thr1 = 0x20001000"

definition thr2 :: ptr where
  "thr2 = 0x20001100"

definition thr3 :: ptr where
  "thr3 = 0x20001200"

definition boot :: rtx where
  "boot =
     \<lparr>efs = (\<lambda>p. zero_ef),
      threads = (\<lambda>p. zero_thread)(thr3 := zero_thread\<lparr>thread_state := osRtxThreadRunning\<rparr>),
      thread_run_curr = thr3, thread_ready = [], isr_queue = [], dispatched = 0,
      mpi_event_flags = None, mem_common = [obj], post_process_event_flags = False,
      PRIMASK = 0, irq_mode = False, evr_log = []\<rparr>"

definition idle :: rtx where
  "idle = boot\<lparr>efs := (efs boot)(obj :=
       \<lparr>id' = osRtxIdEventFlags, state = osRtxObjectActive, flags = osRtxFlagSystemObject,
        name = None, thread_list = [], event_flags = 6\<rparr>),
     mem_common := [], post_process_event_flags := True\<rparr>"

definition waiting :: "u8 \<Rightarrow> rtx" where
  "waiting options1 =
     idle\<lparr>efs := (efs idle)(obj := (efs idle obj)\<lparr>thread_list := [thr1, thr2], event_flags := 0\<rparr>),
       threads := (threads idle)
         (thr1 := \<lparr>thread_state = osRtxThreadWaitingEventFlags, wait_flags = 1,
                   flags_options = options1, wait_result = 0\<rparr>,
          thr2 := \<lparr>thread_state = osRtxThreadWaitingEventFlags, wait_flags = 5,
                   flags_options = 3, wait_result = 0\<rparr>)\<rparr>"

section \<open>Properties\<close>

subsection \<open>Unfolding sets\<close>

lemmas sample_defs = zero_ef_def zero_thread_def obj_def thr1_def thr2_def thr3_def boot_def
  idle_def waiting_def

lemmas const_defs = NULL_def osRtxIdEventFlags_def osRtxObjectInactive_def osRtxObjectActive_def
  osRtxFlagSystemObject_def osFlagsWaitAll_def osFlagsNoClear_def
  osRtxEventFlagsLimit_def osOK_def osError_def osErrorTimeout_def osErrorResource_def
  osErrorParameter_def osErrorNoMemory_def osErrorISR_def osRtxErrorKernelNotRunning_def
  osRtxErrorInvalidControlBlock_def sizeof_os_event_flags_t_def as_uint32_def

subsection \<open>Flag masks\<close>

lemma flags_limit_bit31:
  "(flgs AND NOT (push_bit osRtxEventFlagsLimit 1 - 1) \<noteq> 0) = bit (flgs :: u32) 31"
proof -
  have m: "NOT (push_bit osRtxEventFlagsLimit 1 - 1) = (push_bit 31 1 :: u32)"
    by (simp add: osRtxEventFlagsLimit_def)
  show ?thesis
    unfolding m by (rule bit_iff_and_push_bit_not_eq_0 [symmetric])
qed

lemma less_2p31_iff: "((f :: u32) < 2 ^ 31) = (\<not> bit f 31)"
proof -
  have "(f < 2 ^ 31) = (take_bit 31 f = f)"
    using mask_eq_iff_w2p [of 31 f] by (simp add: take_bit_eq_mask word_size)
  also have "\<dots> = (\<not> bit f 31)"
  proof
    assume "take_bit 31 f = f"
    then have "bit f 31 = bit (take_bit 31 f) 31" by simp
    then show "\<not> bit f 31" by (simp add: bit_simps)
  next
    assume h: "\<not> bit f 31"
    show "take_bit 31 f = f"
    proof (rule bit_eqI)
      fix n
      assume "possible_bit TYPE(u32) n"
      then have "n < 32" by (simp add: possible_bit_word)
      then have "n < 31 \<or> n = 31" by arith
      with h show "bit (take_bit 31 f) n = bit f n"
        by (auto simp: bit_simps)
    qed
  qed
  finally show ?thesis .
qed

subsection \<open>The helper functions, field by field\<close>

lemmas prim_defs =
  Evr_def get_PRIMASK_def disable_irq_def enable_irq_def store_event_flags_def
  osRtxThreadGetRunning_def osRtxThreadListRemove_def osRtxThreadListPut_def
  osRtxThreadWaitExit_def osRtxThreadDispatch_def osRtxPostProcess_def
  osRtxMemoryPoolFree_def osRtxMemoryFree_def

lemma EventFlagsCheck_fst:
  "fst (EventFlagsCheck s ef flgs options) =
     (if condition_holds (event_flags (efs s ef)) flgs (wait_all options)
      then event_flags (efs s ef) else 0)"
  by (auto simp: EventFlagsCheck_def condition_holds_def wait_all_def Let_def prim_defs)

lemma EventFlagsCheck_efs:
  "efs (snd (EventFlagsCheck s ef flgs options)) =
     (if condition_holds (event_flags (efs s ef)) flgs (wait_all options) \<and> auto_clear options
      then (efs s)(ef := (efs s ef)\<lparr>event_flags := event_flags (efs s ef) AND NOT flgs\<rparr>)
      else efs s)"
  by (auto simp: EventFlagsCheck_def condition_holds_def wait_all_def auto_clear_def Let_def
        prim_defs)

lemma EventFlagsCheck_frame:
  "threads (snd (EventFlagsCheck s ef flgs options)) = threads s"
  "thread_ready (snd (EventFlagsCheck s ef flgs options)) = thread_ready s"
  "thread_run_curr (snd (EventFlagsCheck s ef flgs options)) = thread_run_curr s"
  "isr_queue (snd (EventFlagsCheck s ef flgs options)) = isr_queue s"
  "dispatched (snd (EventFlagsCheck s ef flgs options)) = dispatched s"
  "mpi_event_flags (snd (EventFlagsCheck s ef flgs options)) = mpi_event_flags s"
  "mem_common (snd (EventFlagsCheck s ef flgs options)) = mem_common s"
  "post_process_event_flags (snd (EventFlagsCheck s ef flgs options)) = post_process_event_flags s"
  "evr_log (snd (EventFlagsCheck s ef flgs options)) = evr_log s"
  "irq_mode (snd (EventFlagsCheck s ef flgs options)) = irq_mode s"
  by (auto simp: EventFlagsCheck_def Let_def prim_defs)

lemma EventFlagsSet_fst:
  "fst (EventFlagsSet s ef flgs) = event_flags (efs s ef) OR flgs"
  by (simp add: EventFlagsSet_def Let_def prim_defs)

lemma EventFlagsSet_efs:
  "efs (snd (EventFlagsSet s ef flgs)) =
     (efs s)(ef := (efs s ef)\<lparr>event_flags := event_flags (efs s ef) OR flgs\<rparr>)"
  by (simp add: EventFlagsSet_def Let_def prim_defs)

lemma EventFlagsSet_frame:
  "threads (snd (EventFlagsSet s ef flgs)) = threads s"
  "thread_ready (snd (EventFlagsSet s ef flgs)) = thread_ready s"
  "thread_run_curr (snd (EventFlagsSet s ef flgs)) = thread_run_curr s"
  "isr_queue (snd (EventFlagsSet s ef flgs)) = isr_queue s"
  "dispatched (snd (EventFlagsSet s ef flgs)) = dispatched s"
  "mpi_event_flags (snd (EventFlagsSet s ef flgs)) = mpi_event_flags s"
  "mem_common (snd (EventFlagsSet s ef flgs)) = mem_common s"
  "post_process_event_flags (snd (EventFlagsSet s ef flgs)) = post_process_event_flags s"
  "evr_log (snd (EventFlagsSet s ef flgs)) = evr_log s"
  "irq_mode (snd (EventFlagsSet s ef flgs)) = irq_mode s"
  by (simp_all add: EventFlagsSet_def Let_def prim_defs)

lemma EventFlagsClear_fst:
  "fst (EventFlagsClear s ef flgs) = event_flags (efs s ef)"
  by (simp add: EventFlagsClear_def Let_def prim_defs)

lemma EventFlagsClear_efs:
  "efs (snd (EventFlagsClear s ef flgs)) =
     (efs s)(ef := (efs s ef)\<lparr>event_flags := event_flags (efs s ef) AND NOT flgs\<rparr>)"
  by (simp add: EventFlagsClear_def Let_def prim_defs)

lemma EventFlagsClear_frame:
  "threads (snd (EventFlagsClear s ef flgs)) = threads s"
  "thread_ready (snd (EventFlagsClear s ef flgs)) = thread_ready s"
  "thread_run_curr (snd (EventFlagsClear s ef flgs)) = thread_run_curr s"
  "isr_queue (snd (EventFlagsClear s ef flgs)) = isr_queue s"
  "dispatched (snd (EventFlagsClear s ef flgs)) = dispatched s"
  "mpi_event_flags (snd (EventFlagsClear s ef flgs)) = mpi_event_flags s"
  "mem_common (snd (EventFlagsClear s ef flgs)) = mem_common s"
  "post_process_event_flags (snd (EventFlagsClear s ef flgs)) = post_process_event_flags s"
  "evr_log (snd (EventFlagsClear s ef flgs)) = evr_log s"
  "irq_mode (snd (EventFlagsClear s ef flgs)) = irq_mode s"
  by (simp_all add: EventFlagsClear_def Let_def prim_defs)

lemma PRIMASK_masked_frame:
  "IsIrqMasked (snd (EventFlagsSet s ef flgs)) = IsIrqMasked s"
  "IsIrqMasked (snd (EventFlagsClear s ef flgs)) = IsIrqMasked s"
  "IsIrqMasked (snd (EventFlagsCheck s ef flgs options)) = IsIrqMasked s"
  by (auto simp: EventFlagsSet_def EventFlagsClear_def EventFlagsCheck_def IsIrqMasked_def
        Let_def prim_defs)

lemma and_not_matched: "(w :: u32) AND NOT (w AND f) = w AND NOT f"
  by (rule bit_eqI) (auto simp: bit_simps)

lemma Set_loop_snd:
  "snd (svcRtxEventFlagsSet_loop s ef ts evf) = osRtxEventFlagsPostProcess_loop s ef ts"
  by (induction ts arbitrary: s evf) (simp_all add: case_prod_beta Let_def EventFlagsCheck_frame)

lemma PostProcess_loop_invariant:
  assumes init: "P s"
    and check: "\<And>s t. P s \<Longrightarrow> t \<in> set ts \<Longrightarrow>
       P (snd (EventFlagsCheck s ef (wait_flags (threads s t)) (ucast (flags_options (threads s t)))))"
    and wake: "\<And>s t v e. P s \<Longrightarrow>
       P (Evr (osRtxThreadWaitExit (osRtxThreadListRemove s t) t v False) e)"
  shows "P (osRtxEventFlagsPostProcess_loop s ef ts)"
  using init check
proof (induction ts arbitrary: s)
  case Nil
  then show ?case by simp
next
  case (Cons thread thread_next)
  define c where
    "c = EventFlagsCheck s ef (wait_flags (threads s thread)) (ucast (flags_options (threads s thread)))"
  have c: "P (snd c)"
    unfolding c_def using Cons.prems by simp
  have rest: "\<And>s'. P s' \<Longrightarrow> P (osRtxEventFlagsPostProcess_loop s' ef thread_next)"
    using Cons.IH Cons.prems(2) by simp
  show ?case
  proof (cases "fst c = 0")
    case True
    then have "osRtxEventFlagsPostProcess_loop s ef (thread # thread_next) =
        osRtxEventFlagsPostProcess_loop (snd c) ef thread_next"
      by (simp add: c_def case_prod_beta)
    with rest [OF c] show ?thesis by simp
  next
    case False
    then obtain e where "osRtxEventFlagsPostProcess_loop s ef (thread # thread_next) =
        osRtxEventFlagsPostProcess_loop
          (Evr (osRtxThreadWaitExit (osRtxThreadListRemove (snd c) thread) thread (fst c) False) e)
          ef thread_next"
      by (simp add: c_def case_prod_beta Let_def)
    with rest [OF wake [OF c]] show ?thesis by simp
  qed
qed

lemma Set_loop_returns_flag_word:
  "evf = event_flags (efs s ef) \<Longrightarrow>
   fst (svcRtxEventFlagsSet_loop s ef ts evf) =
   event_flags (efs (osRtxEventFlagsPostProcess_loop s ef ts) ef)"
proof (induction ts arbitrary: s evf)
  case Nil
  then show ?case by simp
next
  case (Cons thread thread_next)
  define wf where "wf = wait_flags (threads s thread)"
  define opt :: u32 where "opt = ucast (flags_options (threads s thread))"
  define c where "c = EventFlagsCheck s ef wf opt"
  show ?case
  proof (cases "fst c = 0")
    case True
    have same: "event_flags (efs (snd c) ef) = evf"
      using True Cons.prems
      by (auto simp: c_def EventFlagsCheck_fst EventFlagsCheck_efs split: if_splits)
    have "svcRtxEventFlagsSet_loop s ef (thread # thread_next) evf =
        svcRtxEventFlagsSet_loop (snd c) ef thread_next evf"
      using True by (simp add: c_def wf_def opt_def case_prod_beta)
    moreover have "osRtxEventFlagsPostProcess_loop s ef (thread # thread_next) =
        osRtxEventFlagsPostProcess_loop (snd c) ef thread_next"
      using True by (simp add: c_def wf_def opt_def case_prod_beta)
    ultimately show ?thesis
      using Cons.IH [of evf "snd c"] same by simp
  next
    case False
    define evf' where "evf' = (if opt AND osFlagsNoClear = 0 then fst c AND NOT wf else fst c)"
    define s4 where "s4 = Evr (osRtxThreadWaitExit (osRtxThreadListRemove (snd c) thread) thread (fst c) False)
        (EvrRtxEventFlagsWaitCompleted ef wf opt (fst c))"
    have now: "event_flags (efs s4 ef) = evf'"
      using False
      by (auto simp: s4_def evf'_def c_def EventFlagsCheck_fst EventFlagsCheck_efs auto_clear_def
            prim_defs split: if_splits)
    have "svcRtxEventFlagsSet_loop s ef (thread # thread_next) evf =
        svcRtxEventFlagsSet_loop s4 ef thread_next evf'"
      using False
      by (simp add: c_def wf_def opt_def s4_def evf'_def case_prod_beta Let_def
            EventFlagsCheck_frame osRtxThreadWaitExit_def osRtxThreadListRemove_def)
    moreover have "osRtxEventFlagsPostProcess_loop s ef (thread # thread_next) =
        osRtxEventFlagsPostProcess_loop s4 ef thread_next"
      using False
      by (simp add: c_def wf_def opt_def s4_def case_prod_beta Let_def
            EventFlagsCheck_frame osRtxThreadWaitExit_def osRtxThreadListRemove_def)
    ultimately show ?thesis
      using Cons.IH [of evf' s4] now by simp
  qed
qed

subsection \<open>The service calls on a valid object\<close>

lemma flags_limit_bit31_pow:
  "(flgs AND NOT (2 ^ osRtxEventFlagsLimit - 1) \<noteq> 0) = bit (flgs :: u32) 31"
  using flags_limit_bit31 [of flgs] by simp

lemma svcRtxEventFlagsClear_ok:
  assumes "ef \<noteq> NULL" "id' (efs s ef) = osRtxIdEventFlags"
    "state (efs s ef) \<noteq> osRtxObjectInactive" "\<not> bit flgs 31"
  shows "fst (svcRtxEventFlagsClear s ef flgs) = event_flags (efs s ef)"
    and "efs (snd (svcRtxEventFlagsClear s ef flgs)) =
       (efs s)(ef := (efs s ef)\<lparr>event_flags := event_flags (efs s ef) AND NOT flgs\<rparr>)"
  using assms
  by (simp_all add: svcRtxEventFlagsClear_def flags_limit_bit31_pow case_prod_beta
        EventFlagsClear_fst EventFlagsClear_efs Evr_def)

lemma active_not_inactive: "osRtxObjectActive \<noteq> osRtxObjectInactive"
  by (simp add: osRtxObjectActive_def osRtxObjectInactive_def)

lemma osEventFlagsClear_eq:
  "osEventFlagsClear s ef flgs = svcRtxEventFlagsClear (Evr s (EvrRtxEventFlagsClear ef flgs)) ef flgs"
  by (simp add: osEventFlagsClear_def Let_def)

lemma osEventFlagsGet_eq: "osEventFlagsGet s ef = svcRtxEventFlagsGet s ef"
  by (simp add: osEventFlagsGet_def)

lemma svcRtxEventFlagsGet_ok:
  assumes "ef \<noteq> NULL" "id' (efs s ef) = osRtxIdEventFlags"
    "state (efs s ef) \<noteq> osRtxObjectInactive"
  shows "fst (svcRtxEventFlagsGet s ef) = event_flags (efs s ef)"
  using assms by (simp add: svcRtxEventFlagsGet_def)

lemma svcRtxEventFlagsSet_ok:
  assumes "ef \<noteq> NULL" "id' (efs s ef) = osRtxIdEventFlags"
    "state (efs s ef) \<noteq> osRtxObjectInactive" "\<not> bit flgs 31"
  shows "fst (svcRtxEventFlagsSet s ef flgs) =
       fst (svcRtxEventFlagsSet_loop (snd (EventFlagsSet s ef flgs)) ef
              (thread_list (efs s ef)) (event_flags (efs s ef) OR flgs))"
    and "efs (snd (svcRtxEventFlagsSet s ef flgs)) =
       efs (osRtxEventFlagsPostProcess_loop (snd (EventFlagsSet s ef flgs)) ef
              (thread_list (efs s ef)))"
    and "threads (snd (svcRtxEventFlagsSet s ef flgs)) =
       threads (osRtxEventFlagsPostProcess_loop (snd (EventFlagsSet s ef flgs)) ef
              (thread_list (efs s ef)))"
    and "thread_ready (snd (svcRtxEventFlagsSet s ef flgs)) =
       thread_ready (osRtxEventFlagsPostProcess_loop (snd (EventFlagsSet s ef flgs)) ef
              (thread_list (efs s ef)))"
  using assms
  by (simp_all add: svcRtxEventFlagsSet_def flags_limit_bit31_pow case_prod_beta Let_def
        EventFlagsSet_fst EventFlagsSet_efs Set_loop_snd Evr_def osRtxThreadDispatch_def)

lemma isrRtxEventFlagsSet_ok:
  assumes "ef \<noteq> NULL" "id' (efs s ef) = osRtxIdEventFlags"
    "state (efs s ef) \<noteq> osRtxObjectInactive" "\<not> bit flgs 31"
  shows "fst (isrRtxEventFlagsSet s ef flgs) = event_flags (efs s ef) OR flgs"
    and "efs (snd (isrRtxEventFlagsSet s ef flgs)) =
       (efs s)(ef := (efs s ef)\<lparr>event_flags := event_flags (efs s ef) OR flgs\<rparr>)"
    and "threads (snd (isrRtxEventFlagsSet s ef flgs)) = threads s"
    and "thread_ready (snd (isrRtxEventFlagsSet s ef flgs)) = thread_ready s"
    and "isr_queue (snd (isrRtxEventFlagsSet s ef flgs)) = isr_queue s @ [ef]"
  using assms
  by (simp_all add: isrRtxEventFlagsSet_def flags_limit_bit31_pow case_prod_beta Let_def
        EventFlagsSet_fst EventFlagsSet_efs EventFlagsSet_frame Evr_def osRtxPostProcess_def)

lemma PostProcess_loop_agree:
  assumes "efs s = efs s'" "threads s = threads s'" "thread_ready s = thread_ready s'"
  shows "efs (osRtxEventFlagsPostProcess_loop s ef ts) =
           efs (osRtxEventFlagsPostProcess_loop s' ef ts) \<and>
         threads (osRtxEventFlagsPostProcess_loop s ef ts) =
           threads (osRtxEventFlagsPostProcess_loop s' ef ts) \<and>
         thread_ready (osRtxEventFlagsPostProcess_loop s ef ts) =
           thread_ready (osRtxEventFlagsPostProcess_loop s' ef ts)"
  using assms
proof (induction ts arbitrary: s s')
  case Nil
  then show ?case by simp
next
  case (Cons thread thread_next)
  define wf where "wf = wait_flags (threads s thread)"
  define opt :: u32 where "opt = ucast (flags_options (threads s thread))"
  define c where "c = EventFlagsCheck s ef wf opt"
  define c' where "c' = EventFlagsCheck s' ef wf opt"
  have same: "fst c' = fst c" "efs (snd c) = efs (snd c')" "threads (snd c) = threads (snd c')"
    "thread_ready (snd c) = thread_ready (snd c')"
    using Cons.prems
    by (simp_all add: c_def c'_def EventFlagsCheck_fst EventFlagsCheck_efs EventFlagsCheck_frame)
  show ?case
  proof (cases "fst c = 0")
    case True
    have "osRtxEventFlagsPostProcess_loop s ef (thread # thread_next) =
        osRtxEventFlagsPostProcess_loop (snd c) ef thread_next"
      using True by (simp add: c_def wf_def opt_def case_prod_beta)
    moreover have "osRtxEventFlagsPostProcess_loop s' ef (thread # thread_next) =
        osRtxEventFlagsPostProcess_loop (snd c') ef thread_next"
      using True same(1) Cons.prems(2)
      by (simp add: c'_def wf_def opt_def case_prod_beta)
    ultimately show ?thesis
      using Cons.IH [OF same(2-4)] by simp
  next
    case False
    define s4 where "s4 = Evr (osRtxThreadWaitExit (osRtxThreadListRemove (snd c) thread) thread (fst c) False)
        (EvrRtxEventFlagsWaitCompleted ef wf opt (fst c))"
    define s4' where "s4' = Evr (osRtxThreadWaitExit (osRtxThreadListRemove (snd c') thread) thread (fst c) False)
        (EvrRtxEventFlagsWaitCompleted ef wf opt (fst c))"
    have agree: "efs s4 = efs s4'" "threads s4 = threads s4'" "thread_ready s4 = thread_ready s4'"
      using same by (simp_all add: s4_def s4'_def prim_defs)
    have "osRtxEventFlagsPostProcess_loop s ef (thread # thread_next) =
        osRtxEventFlagsPostProcess_loop s4 ef thread_next"
      using False
      by (simp add: c_def wf_def opt_def s4_def case_prod_beta Let_def
            EventFlagsCheck_frame osRtxThreadWaitExit_def osRtxThreadListRemove_def)
    moreover have "osRtxEventFlagsPostProcess_loop s' ef (thread # thread_next) =
        osRtxEventFlagsPostProcess_loop s4' ef thread_next"
      using False same(1) Cons.prems(2)
      by (simp add: c'_def wf_def opt_def s4'_def case_prod_beta Let_def
            EventFlagsCheck_frame osRtxThreadWaitExit_def osRtxThreadListRemove_def)
    ultimately show ?thesis
      using Cons.IH [OF agree] by simp
  qed
qed

lemma osEventFlagsSet_no_waiters:
  assumes "ef \<noteq> NULL" "id' (efs s ef) = osRtxIdEventFlags"
    "state (efs s ef) \<noteq> osRtxObjectInactive" "\<not> bit flgs 31"
    "thread_list (efs s ef) = []"
  shows "efs (snd (osEventFlagsSet s ef flgs)) =
       (efs s)(ef := (efs s ef)\<lparr>event_flags := event_flags (efs s ef) OR flgs\<rparr>)"
proof -
  let ?s0 = "Evr s (EvrRtxEventFlagsSet ef flgs)"
  have mem: "efs ?s0 = efs s"
    by (simp add: Evr_def)
  have pre: "id' (efs ?s0 ef) = osRtxIdEventFlags" "state (efs ?s0 ef) \<noteq> osRtxObjectInactive"
    using assms(2,3) by (simp_all add: mem)
  show ?thesis
  proof (cases "IsIrqMode ?s0 \<or> IsIrqMasked ?s0")
    case True
    then have "osEventFlagsSet s ef flgs = isrRtxEventFlagsSet ?s0 ef flgs"
      by (simp add: osEventFlagsSet_def Let_def)
    then show ?thesis
      by (simp add: isrRtxEventFlagsSet_ok [OF assms(1) pre assms(4)] mem)
  next
    case False
    then have "osEventFlagsSet s ef flgs = svcRtxEventFlagsSet ?s0 ef flgs"
      by (simp add: osEventFlagsSet_def Let_def)
    then show ?thesis
      using assms(5)
      by (simp add: svcRtxEventFlagsSet_ok [OF assms(1) pre assms(4)] mem EventFlagsSet_efs)
  qed
qed

subsection \<open>The flag word after the walk\<close>

lemma PostProcess_loop_step:
  "osRtxEventFlagsPostProcess_loop s ef (thread # thread_next) =
     osRtxEventFlagsPostProcess_loop
       (if fst (EventFlagsCheck s ef (fst (waiter s thread)) (snd (waiter s thread))) \<noteq> 0
        then Evr (osRtxThreadWaitExit
                    (osRtxThreadListRemove
                       (snd (EventFlagsCheck s ef (fst (waiter s thread)) (snd (waiter s thread))))
                       thread)
                    thread
                    (fst (EventFlagsCheck s ef (fst (waiter s thread)) (snd (waiter s thread))))
                    False)
               (EvrRtxEventFlagsWaitCompleted ef (fst (waiter s thread)) (snd (waiter s thread))
                  (fst (EventFlagsCheck s ef (fst (waiter s thread)) (snd (waiter s thread)))))
        else snd (EventFlagsCheck s ef (fst (waiter s thread)) (snd (waiter s thread))))
       ef thread_next"
  by (simp add: waiter_def case_prod_beta Let_def EventFlagsCheck_frame
        osRtxThreadWaitExit_def osRtxThreadListRemove_def)

lemma PostProcess_loop_flag_word:
  "event_flags (efs (osRtxEventFlagsPostProcess_loop s ef ts) ef) =
     flag_word_after_walk (event_flags (efs s ef)) (map (waiter s) ts)"
proof (induction ts arbitrary: s)
  case Nil
  then show ?case by simp
next
  case (Cons thread thread_next)
  define wf where "wf = fst (waiter s thread)"
  define opt where "opt = snd (waiter s thread)"
  define c where "c = EventFlagsCheck s ef wf opt"
  define s' where "s' = (if fst c \<noteq> 0
      then Evr (osRtxThreadWaitExit (osRtxThreadListRemove (snd c) thread) thread (fst c) False)
             (EvrRtxEventFlagsWaitCompleted ef wf opt (fst c))
      else snd c)"
  have step: "osRtxEventFlagsPostProcess_loop s ef (thread # thread_next) =
      osRtxEventFlagsPostProcess_loop s' ef thread_next"
    unfolding PostProcess_loop_step s'_def c_def wf_def opt_def ..
  have word: "event_flags (efs s' ef) =
      (if condition_holds (event_flags (efs s ef)) wf (wait_all opt) \<and> auto_clear opt
       then event_flags (efs s ef) AND NOT wf else event_flags (efs s ef))"
    by (simp add: s'_def c_def EventFlagsCheck_efs prim_defs)
  have "waiter s' = waiter s"
    by (rule ext) (simp add: waiter_def s'_def c_def EventFlagsCheck_frame prim_defs)
  then have rest: "map (waiter s') thread_next = map (waiter s) thread_next"
    by simp
  have "waiter s thread = (wf, opt)"
    by (simp add: wf_def opt_def)
  then show ?case
    unfolding step Cons.IH [of s'] word rest by simp
qed

lemma PostProcess_loop_wait_list:
  "set (thread_list (efs (osRtxEventFlagsPostProcess_loop s ef ts) ef)) \<subseteq>
   set (thread_list (efs s ef))"
proof -
  let ?P = "\<lambda>s' :: rtx. set (thread_list (efs s' ef)) \<subseteq> set (thread_list (efs s ef))"
  have "?P (osRtxEventFlagsPostProcess_loop s ef ts)"
  proof (rule PostProcess_loop_invariant)
    show "?P s" by simp
  next
    fix s' :: rtx and t
    assume "?P s'"
    then show "?P (snd (EventFlagsCheck s' ef (wait_flags (threads s' t))
        (ucast (flags_options (threads s' t)))))"
      by (auto simp: EventFlagsCheck_efs)
  next
    fix s' :: rtx and t v e
    assume "?P s'"
    then show "?P (Evr (osRtxThreadWaitExit (osRtxThreadListRemove s' t) t v False) e)"
      by (auto simp: prim_defs)
  qed
  then show ?thesis .
qed

lemma PostProcess_loop_no_auto_clear_woken:
  assumes "\<forall>t \<in> set ts. auto_clear (snd (waiter s t)) \<longrightarrow>
      t \<in> set (thread_list (efs (osRtxEventFlagsPostProcess_loop s ef ts) ef))"
  shows "event_flags (efs (osRtxEventFlagsPostProcess_loop s ef ts) ef) = event_flags (efs s ef)"
  using assms
proof (induction ts arbitrary: s)
  case Nil
  then show ?case by simp
next
  case (Cons thread thread_next)
  define wf where "wf = fst (waiter s thread)"
  define opt where "opt = snd (waiter s thread)"
  define c where "c = EventFlagsCheck s ef wf opt"
  define s' where "s' = (if fst c \<noteq> 0
      then Evr (osRtxThreadWaitExit (osRtxThreadListRemove (snd c) thread) thread (fst c) False)
             (EvrRtxEventFlagsWaitCompleted ef wf opt (fst c))
      else snd c)"
  have step: "osRtxEventFlagsPostProcess_loop s ef (thread # thread_next) =
      osRtxEventFlagsPostProcess_loop s' ef thread_next"
    unfolding PostProcess_loop_step s'_def c_def wf_def opt_def ..
  have same: "waiter s' = waiter s"
    by (rule ext) (simp add: waiter_def s'_def c_def EventFlagsCheck_frame prim_defs)
  note prems = Cons.prems [unfolded step]
  have kept: "event_flags (efs s' ef) = event_flags (efs s ef)"
  proof (cases "fst c \<noteq> 0 \<and> auto_clear opt")
    case True
    then have "thread \<notin> set (thread_list (efs s' ef))"
      by (simp add: s'_def prim_defs)
    then have "thread \<notin> set (thread_list (efs (osRtxEventFlagsPostProcess_loop s' ef thread_next) ef))"
      using PostProcess_loop_wait_list [of s' ef thread_next] by blast
    moreover have "thread \<in> set (thread_list (efs (osRtxEventFlagsPostProcess_loop s' ef thread_next) ef))"
      using prems True by (simp add: opt_def)
    ultimately show ?thesis by simp
  next
    case False
    then show ?thesis
      by (auto simp: s'_def c_def EventFlagsCheck_fst EventFlagsCheck_efs prim_defs
            split: if_splits)
  qed
  have "\<forall>t \<in> set thread_next. auto_clear (snd (waiter s' t)) \<longrightarrow>
      t \<in> set (thread_list (efs (osRtxEventFlagsPostProcess_loop s' ef thread_next) ef))"
    using prems by (simp add: same)
  from Cons.IH [OF this] kept show ?case
    unfolding step by simp
qed

subsection \<open>Deletion\<close>

lemma Delete_loop_drains:
  "thread_list (efs s ef) = t # ts \<Longrightarrow>
   svcRtxEventFlagsDelete_loop s ef =
     s\<lparr>efs := (efs s)(ef := (efs s ef)\<lparr>thread_list := []\<rparr>),
       threads := (\<lambda>x. if x \<in> set (t # ts)
          then (threads s x)\<lparr>thread_state := osRtxThreadReady,
                 wait_result := as_uint32 osErrorResource\<rparr>
          else threads s x),
       thread_ready := thread_ready s @ t # ts\<rparr>"
proof (induction ts arbitrary: s t)
  case Nil
  then show ?case
    by (subst svcRtxEventFlagsDelete_loop.simps)
       (auto simp: osRtxThreadListGet_def osRtxThreadWaitExit_def fun_eq_iff)
next
  case (Cons t' ts')
  define s2 where "s2 = osRtxThreadWaitExit
      (s\<lparr>efs := (efs s)(ef := (efs s ef)\<lparr>thread_list := t' # ts'\<rparr>)\<rparr>) t
      (as_uint32 osErrorResource) False"
  have step: "svcRtxEventFlagsDelete_loop s ef = svcRtxEventFlagsDelete_loop s2 ef"
    using Cons.prems
    by (subst svcRtxEventFlagsDelete_loop.simps)
       (simp add: s2_def osRtxThreadListGet_def osRtxThreadWaitExit_def)
  have l2: "thread_list (efs s2 ef) = t' # ts'"
    by (simp add: s2_def osRtxThreadWaitExit_def)
  show ?case
    unfolding step Cons.IH [OF l2]
    by (auto simp: s2_def osRtxThreadWaitExit_def fun_eq_iff)
qed


lemma svcRtxEventFlagsDelete_ok:
  assumes "ef \<noteq> NULL" "id' (efs s ef) = osRtxIdEventFlags"
    "state (efs s ef) \<noteq> osRtxObjectInactive"
  shows "fst (svcRtxEventFlagsDelete s ef) = osOK"
    and "efs (snd (svcRtxEventFlagsDelete s ef)) =
       (efs s)(ef := (efs s ef)\<lparr>state := osRtxObjectInactive, thread_list := []\<rparr>)"
    and "threads (snd (svcRtxEventFlagsDelete s ef)) =
       (\<lambda>x. if x \<in> set (thread_list (efs s ef))
          then (threads s x)\<lparr>thread_state := osRtxThreadReady,
                 wait_result := as_uint32 osErrorResource\<rparr>
          else threads s x)"
    and "thread_ready (snd (svcRtxEventFlagsDelete s ef)) =
       thread_ready s @ thread_list (efs s ef)"
    and "mpi_event_flags (snd (svcRtxEventFlagsDelete s ef)) =
       (if flags (efs s ef) AND osRtxFlagSystemObject \<noteq> 0
        then (case mpi_event_flags s of Some blocks \<Rightarrow> Some (ef # blocks) | None \<Rightarrow> None)
        else mpi_event_flags s)"
    and "mem_common (snd (svcRtxEventFlagsDelete s ef)) =
       (if flags (efs s ef) AND osRtxFlagSystemObject \<noteq> 0 \<and> mpi_event_flags s = None
        then ef # mem_common s else mem_common s)"
proof -
  define s1 where "s1 = s\<lparr>efs := (efs s)(ef := (efs s ef)\<lparr>state := osRtxObjectInactive\<rparr>)\<rparr>"
  define s2 where "s2 = (if thread_list (efs s1 ef) \<noteq> []
             then osRtxThreadDispatch (svcRtxEventFlagsDelete_loop s1 ef) NULL else s1)"
  have drained:
    "efs s2 = (efs s)(ef := (efs s ef)\<lparr>state := osRtxObjectInactive, thread_list := []\<rparr>) \<and>
     threads s2 = (\<lambda>x. if x \<in> set (thread_list (efs s ef))
          then (threads s x)\<lparr>thread_state := osRtxThreadReady,
                 wait_result := as_uint32 osErrorResource\<rparr>
          else threads s x) \<and>
     thread_ready s2 = thread_ready s @ thread_list (efs s ef) \<and>
     mpi_event_flags s2 = mpi_event_flags s \<and> mem_common s2 = mem_common s"
  proof (cases "thread_list (efs s ef)")
    case Nil
    then show ?thesis
      by (auto simp: s2_def s1_def)
  next
    case (Cons t ts)
    then have "thread_list (efs s1 ef) = t # ts" by (simp add: s1_def)
    from Delete_loop_drains [OF this] Cons show ?thesis
      by (simp add: s2_def s1_def osRtxThreadDispatch_def cong: if_cong)
  qed
  have whole: "svcRtxEventFlagsDelete s ef =
      (osOK, Evr (if flags (efs s2 ef) AND osRtxFlagSystemObject \<noteq> 0
                  then (if mpi_event_flags s2 \<noteq> None then osRtxMemoryPoolFree s2 ef
                        else osRtxMemoryFree s2 ef)
                  else s2) (EvrRtxEventFlagsDestroyed ef))"
    using assms by (simp add: svcRtxEventFlagsDelete_def Let_def s2_def s1_def)
  have fl: "flags (efs s2 ef) = flags (efs s ef)"
    by (simp add: drained)
  show "fst (svcRtxEventFlagsDelete s ef) = osOK"
    by (simp add: whole)
  show "efs (snd (svcRtxEventFlagsDelete s ef)) =
       (efs s)(ef := (efs s ef)\<lparr>state := osRtxObjectInactive, thread_list := []\<rparr>)"
    unfolding whole
    by (simp add: drained Evr_def osRtxMemoryPoolFree_def osRtxMemoryFree_def split: option.splits)
  show "threads (snd (svcRtxEventFlagsDelete s ef)) =
       (\<lambda>x. if x \<in> set (thread_list (efs s ef))
          then (threads s x)\<lparr>thread_state := osRtxThreadReady,
                 wait_result := as_uint32 osErrorResource\<rparr>
          else threads s x)"
    unfolding whole
    by (simp add: drained Evr_def osRtxMemoryPoolFree_def osRtxMemoryFree_def split: option.splits)
  show "thread_ready (snd (svcRtxEventFlagsDelete s ef)) =
       thread_ready s @ thread_list (efs s ef)"
    unfolding whole
    by (simp add: drained Evr_def osRtxMemoryPoolFree_def osRtxMemoryFree_def split: option.splits)
  show "mpi_event_flags (snd (svcRtxEventFlagsDelete s ef)) =
       (if flags (efs s ef) AND osRtxFlagSystemObject \<noteq> 0
        then (case mpi_event_flags s of Some blocks \<Rightarrow> Some (ef # blocks) | None \<Rightarrow> None)
        else mpi_event_flags s)"
    unfolding whole fl
    by (simp add: drained Evr_def osRtxMemoryPoolFree_def osRtxMemoryFree_def split: option.splits)
  show "mem_common (snd (svcRtxEventFlagsDelete s ef)) =
       (if flags (efs s ef) AND osRtxFlagSystemObject \<noteq> 0 \<and> mpi_event_flags s = None
        then ef # mem_common s else mem_common s)"
    unfolding whole fl
    by (simp add: drained Evr_def osRtxMemoryPoolFree_def osRtxMemoryFree_def split: option.splits)
qed

lemma inactive_fails:
  assumes "state (efs s ef) = osRtxObjectInactive"
  shows "fst (svcRtxEventFlagsSet s ef flgs) \<in> {as_uint32 osErrorParameter, as_uint32 osErrorResource}"
    and "fst (isrRtxEventFlagsSet s ef flgs) \<in> {as_uint32 osErrorParameter, as_uint32 osErrorResource}"
    and "fst (svcRtxEventFlagsClear s ef flgs) \<in> {as_uint32 osErrorParameter, as_uint32 osErrorResource}"
    and "fst (svcRtxEventFlagsWait s ef flgs options timeout) \<in>
           {as_uint32 osError, as_uint32 osErrorParameter, as_uint32 osErrorResource}"
    and "fst (isrRtxEventFlagsWait s ef flgs options timeout) \<in>
           {as_uint32 osErrorParameter, as_uint32 osErrorResource}"
    and "fst (svcRtxEventFlagsGet s ef) = 0"
    and "fst (svcRtxEventFlagsGetName s ef) = None"
    and "fst (svcRtxEventFlagsDelete s ef) \<in> {osErrorParameter, osErrorResource}"
    and "osRtxEventFlagsPostProcess s ef = s"
  using assms
  by (simp_all add: svcRtxEventFlagsSet_def isrRtxEventFlagsSet_def svcRtxEventFlagsClear_def
        svcRtxEventFlagsWait_def isrRtxEventFlagsWait_def svcRtxEventFlagsGet_def
        svcRtxEventFlagsGetName_def svcRtxEventFlagsDelete_def osRtxEventFlagsPostProcess_def
        Let_def)


subsection \<open>Validation\<close>

lemma Evr_frame:
  "efs (Evr s e) = efs s" "threads (Evr s e) = threads s"
  "IsIrqMode (Evr s e) = IsIrqMode s" "IsIrqMasked (Evr s e) = IsIrqMasked s"
  "osRtxThreadGetRunning (Evr s e) = osRtxThreadGetRunning s"
  by (simp_all add: Evr_def IsIrqMode_def IsIrqMasked_def osRtxThreadGetRunning_def)

lemma parameter_errors:
  assumes "ef = NULL \<or> id' (efs s ef) \<noteq> osRtxIdEventFlags \<or> bit flgs 31"
  shows "fst (svcRtxEventFlagsSet s ef flgs) = as_uint32 osErrorParameter"
    and "fst (isrRtxEventFlagsSet s ef flgs) = as_uint32 osErrorParameter"
    and "fst (svcRtxEventFlagsClear s ef flgs) = as_uint32 osErrorParameter"
    and "osRtxThreadGetRunning s \<noteq> NULL \<Longrightarrow>
         fst (svcRtxEventFlagsWait s ef flgs options timeout) = as_uint32 osErrorParameter"
    and "fst (isrRtxEventFlagsWait s ef flgs options timeout) = as_uint32 osErrorParameter"
  using assms
  by (auto simp: svcRtxEventFlagsSet_def isrRtxEventFlagsSet_def svcRtxEventFlagsClear_def
        svcRtxEventFlagsWait_def isrRtxEventFlagsWait_def flags_limit_bit31_pow Let_def)

lemma resource_errors:
  assumes "ef \<noteq> NULL" "id' (efs s ef) = osRtxIdEventFlags" "\<not> bit flgs 31"
    "state (efs s ef) = osRtxObjectInactive"
  shows "fst (svcRtxEventFlagsSet s ef flgs) = as_uint32 osErrorResource"
    and "fst (isrRtxEventFlagsSet s ef flgs) = as_uint32 osErrorResource"
    and "fst (svcRtxEventFlagsClear s ef flgs) = as_uint32 osErrorResource"
    and "osRtxThreadGetRunning s \<noteq> NULL \<Longrightarrow>
         fst (svcRtxEventFlagsWait s ef flgs options timeout) = as_uint32 osErrorResource"
    and "fst (isrRtxEventFlagsWait s ef flgs options 0) = as_uint32 osErrorResource"
  using assms
  by (auto simp: svcRtxEventFlagsSet_def isrRtxEventFlagsSet_def svcRtxEventFlagsClear_def
        svcRtxEventFlagsWait_def isrRtxEventFlagsWait_def flags_limit_bit31_pow Let_def)

lemma delete_errors:
  "ef = NULL \<or> id' (efs s ef) \<noteq> osRtxIdEventFlags \<Longrightarrow>
   fst (svcRtxEventFlagsDelete s ef) = osErrorParameter"
  "ef \<noteq> NULL \<Longrightarrow> id' (efs s ef) = osRtxIdEventFlags \<Longrightarrow>
   state (efs s ef) = osRtxObjectInactive \<Longrightarrow>
   fst (svcRtxEventFlagsDelete s ef) = osErrorResource"
  by (auto simp: svcRtxEventFlagsDelete_def)

lemma get_zero:
  "ef = NULL \<or> id' (efs s ef) \<noteq> osRtxIdEventFlags \<or> state (efs s ef) = osRtxObjectInactive
   \<Longrightarrow> fst (svcRtxEventFlagsGet s ef) = 0"
  by (auto simp: svcRtxEventFlagsGet_def)

subsection \<open>Bit 31 of the flag word\<close>

lemma bit31_helpers:
  "bit31_clear s p \<Longrightarrow> bit31_clear (snd (EventFlagsCheck s ef flgs options)) p"
  "bit31_clear s p \<Longrightarrow> bit31_clear (snd (EventFlagsClear s ef flgs)) p"
  "bit31_clear s p \<Longrightarrow> \<not> bit flgs 31 \<Longrightarrow> bit31_clear (snd (EventFlagsSet s ef flgs)) p"
  by (auto simp: bit31_clear_def EventFlagsCheck_efs EventFlagsClear_efs EventFlagsSet_efs
        bit_simps)

lemma bit31_PostProcess_loop:
  assumes "bit31_clear s p"
  shows "bit31_clear (osRtxEventFlagsPostProcess_loop s ef ts) p"
proof (rule PostProcess_loop_invariant)
  show "bit31_clear s p" by fact
next
  fix s' :: rtx and t
  assume "bit31_clear s' p"
  then show "bit31_clear (snd (EventFlagsCheck s' ef (wait_flags (threads s' t))
      (ucast (flags_options (threads s' t))))) p"
    by (rule bit31_helpers)
next
  fix s' :: rtx and t v e
  assume "bit31_clear s' p"
  then show "bit31_clear (Evr (osRtxThreadWaitExit (osRtxThreadListRemove s' t) t v False) e) p"
    by (simp add: bit31_clear_def prim_defs)
qed


lemma bit31_Evr: "bit31_clear (Evr s e) p = bit31_clear s p"
  by (simp add: bit31_clear_def Evr_def)

lemma bit31_PostProcess:
  "bit31_clear s p \<Longrightarrow> bit31_clear (osRtxEventFlagsPostProcess s ef) p"
  by (simp add: osRtxEventFlagsPostProcess_def bit31_PostProcess_loop)

lemma bit31_svcSet:
  assumes "bit31_clear s p"
  shows "bit31_clear (snd (svcRtxEventFlagsSet s ef flgs)) p"
proof (cases "ef = NULL \<or> id' (efs s ef) \<noteq> osRtxIdEventFlags \<or> bit flgs 31 \<or>
    state (efs s ef) = osRtxObjectInactive")
  case True
  then have "efs (snd (svcRtxEventFlagsSet s ef flgs)) = efs s"
    by (auto simp: svcRtxEventFlagsSet_def flags_limit_bit31_pow Evr_def)
  with assms show ?thesis by (simp add: bit31_clear_def)
next
  case False
  then have ok: "ef \<noteq> NULL" "id' (efs s ef) = osRtxIdEventFlags"
    "state (efs s ef) \<noteq> osRtxObjectInactive" "\<not> bit flgs 31"
    by simp_all
  have "bit31_clear (osRtxEventFlagsPostProcess_loop (snd (EventFlagsSet s ef flgs)) ef
      (thread_list (efs s ef))) p"
    using assms ok(4) by (intro bit31_PostProcess_loop bit31_helpers)
  then show ?thesis
    using svcRtxEventFlagsSet_ok(2) [OF ok] by (simp add: bit31_clear_def)
qed

lemma bit31_isrSet:
  assumes "bit31_clear s p"
  shows "bit31_clear (snd (isrRtxEventFlagsSet s ef flgs)) p"
proof (cases "ef = NULL \<or> id' (efs s ef) \<noteq> osRtxIdEventFlags \<or> bit flgs 31 \<or>
    state (efs s ef) = osRtxObjectInactive")
  case True
  then have "efs (snd (isrRtxEventFlagsSet s ef flgs)) = efs s"
    by (auto simp: isrRtxEventFlagsSet_def flags_limit_bit31_pow Evr_def)
  with assms show ?thesis by (simp add: bit31_clear_def)
next
  case False
  then have ok: "ef \<noteq> NULL" "id' (efs s ef) = osRtxIdEventFlags"
    "state (efs s ef) \<noteq> osRtxObjectInactive" "\<not> bit flgs 31"
    by simp_all
  have "bit31_clear (snd (EventFlagsSet s ef flgs)) p"
    using assms ok(4) by (rule bit31_helpers)
  then show ?thesis
    using isrRtxEventFlagsSet_ok(2) [OF ok] by (simp add: bit31_clear_def EventFlagsSet_efs)
qed


lemma bit31_svcClear:
  "bit31_clear s p \<Longrightarrow> bit31_clear (snd (svcRtxEventFlagsClear s ef flgs)) p"
  by (auto simp: svcRtxEventFlagsClear_def case_prod_beta Let_def bit31_Evr bit31_helpers)

lemma bit31_svcGet:
  "bit31_clear s p \<Longrightarrow> bit31_clear (snd (svcRtxEventFlagsGet s ef)) p"
  by (auto simp: svcRtxEventFlagsGet_def bit31_Evr)

lemma bit31_svcGetName:
  "bit31_clear s p \<Longrightarrow> bit31_clear (snd (svcRtxEventFlagsGetName s ef)) p"
  by (auto simp: svcRtxEventFlagsGetName_def bit31_Evr)

lemma bit31_isrWait:
  "bit31_clear s p \<Longrightarrow> bit31_clear (snd (isrRtxEventFlagsWait s ef flgs options timeout)) p"
  by (auto simp: isrRtxEventFlagsWait_def case_prod_beta Let_def bit31_Evr bit31_helpers)



lemma osRtxThreadWaitEnter_efs:
  "efs (snd (osRtxThreadWaitEnter s st timeout)) = efs s"
  by (simp add: osRtxThreadWaitEnter_def split: list.splits)

lemma osRtxThreadListPut_event_flags:
  "event_flags (efs (osRtxThreadListPut s ef thread) p) = event_flags (efs s p)"
  by (simp add: osRtxThreadListPut_def)

lemma bit31_svcWait:
  assumes "bit31_clear s p"
  shows "bit31_clear (snd (svcRtxEventFlagsWait s ef flgs options timeout)) p"
proof -
  define c where "c = EventFlagsCheck s ef flgs options"
  have c: "bit31_clear (snd c) p"
    unfolding c_def using assms by (rule bit31_helpers)
  define s3 where "s3 = (Evr (snd c) (EvrRtxEventFlagsWaitPending ef flgs options timeout))
      \<lparr>threads := (threads (snd c))(osRtxThreadGetRunning s :=
         (threads (snd c) (osRtxThreadGetRunning s))
           \<lparr>wait_flags := flgs, flags_options := ucast options\<rparr>)\<rparr>"
  define w where "w = osRtxThreadWaitEnter s3 osRtxThreadWaitingEventFlags timeout"
  define s5 where "s5 = (if fst w then osRtxThreadListPut (snd w) ef (osRtxThreadGetRunning s)
      else Evr (snd w) (EvrRtxEventFlagsWaitTimeout ef))"
  have s5: "bit31_clear s5 p"
    using c
    by (simp add: s5_def w_def s3_def bit31_clear_def osRtxThreadListPut_event_flags
          osRtxThreadWaitEnter_efs Evr_def)
  have "snd (svcRtxEventFlagsWait s ef flgs options timeout) \<in>
      {Evr s (EvrRtxEventFlagsError ef osRtxErrorKernelNotRunning),
       Evr s (EvrRtxEventFlagsError ef osErrorParameter),
       Evr s (EvrRtxEventFlagsError ef osErrorResource),
       Evr (snd c) (EvrRtxEventFlagsWaitCompleted ef flgs options (fst c)),
       Evr (snd c) (EvrRtxEventFlagsWaitNotCompleted ef flgs options),
       s5}"
    by (simp add: svcRtxEventFlagsWait_def case_prod_beta Let_def c_def s3_def w_def s5_def
          EventFlagsCheck_frame Evr_def)
  with assms c s5 show ?thesis
    by (auto simp: bit31_Evr)
qed

lemma bit31_svcDelete:
  assumes "bit31_clear s p"
  shows "bit31_clear (snd (svcRtxEventFlagsDelete s ef)) p"
proof (cases "ef = NULL \<or> id' (efs s ef) \<noteq> osRtxIdEventFlags \<or>
    state (efs s ef) = osRtxObjectInactive")
  case True
  then have "efs (snd (svcRtxEventFlagsDelete s ef)) = efs s"
    by (auto simp: svcRtxEventFlagsDelete_def Evr_def)
  with assms show ?thesis by (simp add: bit31_clear_def)
next
  case False
  then have ok: "ef \<noteq> NULL" "id' (efs s ef) = osRtxIdEventFlags"
    "state (efs s ef) \<noteq> osRtxObjectInactive"
    by simp_all
  show ?thesis
    using assms by (auto simp: bit31_clear_def svcRtxEventFlagsDelete_ok(2) [OF ok])
qed



lemma svcRtxEventFlagsNew_init_event_flags:
  "event_flags (efs (snd (svcRtxEventFlagsNew_init s nm ef0)) p) =
     (if p = fst (svcRtxEventFlagsNew_init s nm ef0) \<and> p \<noteq> NULL then 0
      else event_flags (efs s p))"
  by (auto simp: svcRtxEventFlagsNew_init_def Let_def Evr_def osRtxMemoryPoolAlloc_def
        osRtxMemoryAlloc_def split: option.splits list.splits)

lemma svcRtxEventFlagsNew_cases:
  "svcRtxEventFlagsNew s attr =
     (NULL, Evr s (EvrRtxEventFlagsError NULL osRtxErrorInvalidControlBlock)) \<or>
   (\<exists>nm ef0. svcRtxEventFlagsNew s attr = svcRtxEventFlagsNew_init s nm ef0)"
  by (cases attr) (auto simp: svcRtxEventFlagsNew_def)

lemma bit31_svcNew:
  assumes "bit31_clear s p"
  shows "bit31_clear (snd (svcRtxEventFlagsNew s attr)) p"
  using svcRtxEventFlagsNew_cases [of s attr]
proof (elim disjE exE)
  assume "svcRtxEventFlagsNew s attr =
     (NULL, Evr s (EvrRtxEventFlagsError NULL osRtxErrorInvalidControlBlock))"
  with assms show ?thesis by (simp add: bit31_Evr)
next
  fix nm ef0
  assume "svcRtxEventFlagsNew s attr = svcRtxEventFlagsNew_init s nm ef0"
  with assms show ?thesis
    by (simp add: bit31_clear_def svcRtxEventFlagsNew_init_event_flags)
qed

lemma svcRtxEventFlagsNew_zero:
  assumes "fst (svcRtxEventFlagsNew s attr) \<noteq> NULL"
  shows "event_flags (efs (snd (svcRtxEventFlagsNew s attr)) (fst (svcRtxEventFlagsNew s attr))) = 0"
  using svcRtxEventFlagsNew_cases [of s attr]
proof (elim disjE exE)
  assume "svcRtxEventFlagsNew s attr =
     (NULL, Evr s (EvrRtxEventFlagsError NULL osRtxErrorInvalidControlBlock))"
  with assms show ?thesis by simp
next
  fix nm ef0
  assume "svcRtxEventFlagsNew s attr = svcRtxEventFlagsNew_init s nm ef0"
  with assms show ?thesis
    by (simp add: svcRtxEventFlagsNew_init_event_flags)
qed


lemma bit31_public:
  assumes "bit31_clear s p"
  shows "bit31_clear (snd (osEventFlagsNew s attr)) p"
    and "bit31_clear (snd (osEventFlagsGetName s ef)) p"
    and "bit31_clear (snd (osEventFlagsSet s ef flgs)) p"
    and "bit31_clear (snd (osEventFlagsClear s ef flgs)) p"
    and "bit31_clear (snd (osEventFlagsGet s ef)) p"
    and "bit31_clear (snd (osEventFlagsWait s ef flgs options timeout)) p"
    and "bit31_clear (snd (osEventFlagsDelete s ef)) p"
  using assms
  by (simp_all add: osEventFlagsNew_def osEventFlagsGetName_def osEventFlagsSet_def
        osEventFlagsClear_def osEventFlagsGet_def osEventFlagsWait_def osEventFlagsDelete_def
        Let_def bit31_Evr bit31_svcNew bit31_svcGetName bit31_svcSet bit31_isrSet
        bit31_svcClear bit31_svcGet bit31_svcWait bit31_isrWait bit31_svcDelete)

lemma osEventFlagsNew_zero:
  assumes "fst (osEventFlagsNew s attr) \<noteq> NULL"
  shows "event_flags (efs (snd (osEventFlagsNew s attr)) (fst (osEventFlagsNew s attr))) = 0"
proof (cases "IsIrqMode s \<or> IsIrqMasked s")
  case True
  with assms show ?thesis
    by (simp add: osEventFlagsNew_def Let_def Evr_frame)
next
  case False
  then have "osEventFlagsNew s attr = svcRtxEventFlagsNew (Evr s (EvrRtxEventFlagsNew attr)) attr"
    by (simp add: osEventFlagsNew_def Let_def Evr_frame)
  with assms show ?thesis
    by (simp add: svcRtxEventFlagsNew_zero)
qed

subsection \<open>The order of deletion, and what follows it\<close>

lemma Delete_loop_trace_last:
  "last (svcRtxEventFlagsDelete_loop_trace s ef) = svcRtxEventFlagsDelete_loop s ef"
proof (induction s ef rule: svcRtxEventFlagsDelete_loop.induct)
  case (1 s ef)
  define s2 where "s2 = osRtxThreadWaitExit (snd (osRtxThreadListGet s ef))
      (fst (osRtxThreadListGet s ef)) (as_uint32 osErrorResource) False"
  have tr: "svcRtxEventFlagsDelete_loop_trace s ef =
      s2 # (if thread_list (efs s2 ef) \<noteq> [] then svcRtxEventFlagsDelete_loop_trace s2 ef else [])"
    by (subst svcRtxEventFlagsDelete_loop_trace.simps) (simp add: s2_def case_prod_beta Let_def)
  have lp: "svcRtxEventFlagsDelete_loop s ef =
      (if thread_list (efs s2 ef) \<noteq> [] then svcRtxEventFlagsDelete_loop s2 ef else s2)"
    by (subst svcRtxEventFlagsDelete_loop.simps) (simp add: s2_def case_prod_beta Let_def)
  have nonempty: "svcRtxEventFlagsDelete_loop_trace s2 ef \<noteq> []"
    by (subst svcRtxEventFlagsDelete_loop_trace.simps) (simp add: case_prod_beta Let_def)
  show ?case
  proof (cases "thread_list (efs s2 ef) \<noteq> []")
    case True
    have "last (svcRtxEventFlagsDelete_loop_trace s2 ef) = svcRtxEventFlagsDelete_loop s2 ef"
      using True by (intro "1.IH" [of "osRtxThreadListGet s ef" "fst (osRtxThreadListGet s ef)"
            "snd (osRtxThreadListGet s ef)" s2]) (simp_all add: s2_def)
    with True nonempty show ?thesis
      by (simp add: tr lp)
  next
    case False
    then show ?thesis by (simp add: tr lp)
  qed
qed

lemma Delete_loop_trace_state:
  "\<forall>st \<in> set (svcRtxEventFlagsDelete_loop_trace s ef). state (efs st p) = state (efs s p)"
proof (induction s ef rule: svcRtxEventFlagsDelete_loop.induct)
  case (1 s ef)
  define s2 where "s2 = osRtxThreadWaitExit (snd (osRtxThreadListGet s ef))
      (fst (osRtxThreadListGet s ef)) (as_uint32 osErrorResource) False"
  have tr: "svcRtxEventFlagsDelete_loop_trace s ef =
      s2 # (if thread_list (efs s2 ef) \<noteq> [] then svcRtxEventFlagsDelete_loop_trace s2 ef else [])"
    by (subst svcRtxEventFlagsDelete_loop_trace.simps) (simp add: s2_def case_prod_beta Let_def)
  have s2: "state (efs s2 p) = state (efs s p)"
    by (simp add: s2_def osRtxThreadWaitExit_def osRtxThreadListGet_def split: list.splits)
  show ?case
  proof (cases "thread_list (efs s2 ef) \<noteq> []")
    case True
    have "\<forall>st \<in> set (svcRtxEventFlagsDelete_loop_trace s2 ef). state (efs st p) = state (efs s2 p)"
      using True by (intro "1.IH" [of "osRtxThreadListGet s ef" "fst (osRtxThreadListGet s ef)"
            "snd (osRtxThreadListGet s ef)" s2]) (simp_all add: s2_def)
    with True s2 show ?thesis
      by (simp add: tr)
  next
    case False
    with s2 show ?thesis by (simp add: tr)
  qed
qed


lemma Delete_loop_trace_passes:
  "thread_list (efs s ef) = t # ts \<Longrightarrow>
   length (svcRtxEventFlagsDelete_loop_trace s ef) = Suc (length ts) \<and>
   (\<forall>k < Suc (length ts).
      thread_ready (svcRtxEventFlagsDelete_loop_trace s ef ! k) =
        thread_ready s @ take (Suc k) (t # ts) \<and>
      thread_list (efs (svcRtxEventFlagsDelete_loop_trace s ef ! k) ef) = drop (Suc k) (t # ts))"
proof (induction ts arbitrary: s t)
  case Nil
  then show ?case
    by (subst (1 2 3) svcRtxEventFlagsDelete_loop_trace.simps)
       (simp add: osRtxThreadListGet_def osRtxThreadWaitExit_def Let_def)
next
  case (Cons t' ts')
  define s2 where "s2 = osRtxThreadWaitExit
      (s\<lparr>efs := (efs s)(ef := (efs s ef)\<lparr>thread_list := t' # ts'\<rparr>)\<rparr>) t
      (as_uint32 osErrorResource) False"
  have step: "svcRtxEventFlagsDelete_loop_trace s ef = s2 # svcRtxEventFlagsDelete_loop_trace s2 ef"
    using Cons.prems
    by (subst svcRtxEventFlagsDelete_loop_trace.simps)
       (simp add: s2_def osRtxThreadListGet_def osRtxThreadWaitExit_def Let_def)
  have s2: "thread_list (efs s2 ef) = t' # ts'" "thread_ready s2 = thread_ready s @ [t]"
    by (simp_all add: s2_def osRtxThreadWaitExit_def)
  note IH = Cons.IH [OF s2(1)]
  show ?case
  proof (intro conjI allI impI)
    show "length (svcRtxEventFlagsDelete_loop_trace s ef) = Suc (length (t' # ts'))"
      using IH by (simp add: step)
  next
    fix k
    assume k: "k < Suc (length (t' # ts'))"
    show "thread_ready (svcRtxEventFlagsDelete_loop_trace s ef ! k) =
        thread_ready s @ take (Suc k) (t # t' # ts')"
    proof (cases k)
      case 0
      then show ?thesis by (simp add: step s2)
    next
      case (Suc j)
      with k IH show ?thesis by (simp add: step s2)
    qed
  next
    fix k
    assume k: "k < Suc (length (t' # ts'))"
    show "thread_list (efs (svcRtxEventFlagsDelete_loop_trace s ef ! k) ef) =
        drop (Suc k) (t # t' # ts')"
    proof (cases k)
      case 0
      then show ?thesis by (simp add: step s2)
    next
      case (Suc j)
      with k IH show ?thesis by (simp add: step s2)
    qed
  qed
qed

lemma Delete_trace_passes:
  assumes "k \<le> length (thread_list (efs s ef))"
  shows "thread_ready (svcRtxEventFlagsDelete_trace s ef ! k) =
           thread_ready s @ take k (thread_list (efs s ef)) \<and>
         thread_list (efs (svcRtxEventFlagsDelete_trace s ef ! k) ef) =
           drop k (thread_list (efs s ef))"
proof (cases k)
  case 0
  then show ?thesis
    by (simp add: svcRtxEventFlagsDelete_trace_def Let_def)
next
  case (Suc j)
  define s1 where "s1 = s\<lparr>efs := (efs s)(ef := (efs s ef)\<lparr>state := osRtxObjectInactive\<rparr>)\<rparr>"
  from Suc assms obtain t ts where ws: "thread_list (efs s ef) = t # ts" and j: "j < Suc (length ts)"
    by (cases "thread_list (efs s ef)") auto
  then have l1: "thread_list (efs s1 ef) = t # ts"
    by (simp add: s1_def)
  note passes = Delete_loop_trace_passes [OF l1]
  have "svcRtxEventFlagsDelete_trace s ef ! k = svcRtxEventFlagsDelete_loop_trace s1 ef ! j"
    using j passes l1
    by (simp add: svcRtxEventFlagsDelete_trace_def Let_def Suc nth_append flip: s1_def)
  with passes j show ?thesis
    by (simp add: ws Suc s1_def)
qed

lemma Delete_trace:
  assumes "ef \<noteq> NULL" "id' (efs s ef) = osRtxIdEventFlags"
    "state (efs s ef) \<noteq> osRtxObjectInactive"
  shows "svcRtxEventFlagsDelete s ef = (osOK, last (svcRtxEventFlagsDelete_trace s ef))"
    and "hd (svcRtxEventFlagsDelete_trace s ef) =
       s\<lparr>efs := (efs s)(ef := (efs s ef)\<lparr>state := osRtxObjectInactive\<rparr>)\<rparr>"
    and "\<forall>st \<in> set (svcRtxEventFlagsDelete_trace s ef). state (efs st ef) = osRtxObjectInactive"
proof -
  define s1 where "s1 = s\<lparr>efs := (efs s)(ef := (efs s ef)\<lparr>state := osRtxObjectInactive\<rparr>)\<rparr>"
  define drain where "drain = (if thread_list (efs s1 ef) \<noteq> []
      then svcRtxEventFlagsDelete_loop_trace s1 ef @
           [osRtxThreadDispatch (last (svcRtxEventFlagsDelete_loop_trace s1 ef)) NULL]
      else [])"
  define s2 where "s2 = last (s1 # drain)"
  define s3 where "s3 = (if flags (efs s2 ef) AND osRtxFlagSystemObject \<noteq> 0
      then (if mpi_event_flags s2 \<noteq> None then osRtxMemoryPoolFree s2 ef
            else osRtxMemoryFree s2 ef)
      else s2)"
  define s4 where "s4 = Evr s3 (EvrRtxEventFlagsDestroyed ef)"
  have tr: "svcRtxEventFlagsDelete_trace s ef = s1 # drain @ [s3, s4]"
    by (simp add: svcRtxEventFlagsDelete_trace_def Let_def s1_def drain_def s2_def s3_def s4_def)
  have s2: "s2 = (if thread_list (efs s1 ef) \<noteq> []
      then osRtxThreadDispatch (svcRtxEventFlagsDelete_loop s1 ef) NULL else s1)"
    by (simp add: s2_def drain_def Delete_loop_trace_last)
  have "svcRtxEventFlagsDelete s ef = (osOK, s4)"
    using assms
    by (simp add: svcRtxEventFlagsDelete_def Let_def s4_def s3_def s2 s1_def)
  then show "svcRtxEventFlagsDelete s ef = (osOK, last (svcRtxEventFlagsDelete_trace s ef))"
    by (simp add: tr)
  show "hd (svcRtxEventFlagsDelete_trace s ef) =
       s\<lparr>efs := (efs s)(ef := (efs s ef)\<lparr>state := osRtxObjectInactive\<rparr>)\<rparr>"
    by (simp add: tr s1_def)
  have m1: "state (efs s1 ef) = osRtxObjectInactive"
    by (simp add: s1_def)
  have ne: "svcRtxEventFlagsDelete_loop_trace s1 ef \<noteq> []"
    by (subst svcRtxEventFlagsDelete_loop_trace.simps) (simp add: case_prod_beta Let_def)
  have passes: "\<forall>st \<in> set (svcRtxEventFlagsDelete_loop_trace s1 ef).
      state (efs st ef) = osRtxObjectInactive"
    using Delete_loop_trace_state [of s1 ef ef] m1 by simp
  with last_in_set [OF ne]
  have "state (efs (last (svcRtxEventFlagsDelete_loop_trace s1 ef)) ef) = osRtxObjectInactive"
    by blast
  with passes have md: "\<forall>st \<in> set drain. state (efs st ef) = osRtxObjectInactive"
    by (auto simp: drain_def osRtxThreadDispatch_def)
  have "s2 \<in> set (s1 # drain)"
    unfolding s2_def by (rule last_in_set) simp
  with m1 md have m2: "state (efs s2 ef) = osRtxObjectInactive"
    by auto
  have m3: "state (efs s3 ef) = osRtxObjectInactive"
    using m2 by (simp add: s3_def osRtxMemoryPoolFree_def osRtxMemoryFree_def split: option.splits)
  have m4: "state (efs s4 ef) = osRtxObjectInactive"
    using m3 by (simp add: s4_def Evr_def)
  show "\<forall>st \<in> set (svcRtxEventFlagsDelete_trace s ef). state (efs st ef) = osRtxObjectInactive"
    using m1 md m3 m4 by (simp add: tr)
qed

lemma inactive_helpers:
  "inactive s p \<Longrightarrow> inactive (snd (EventFlagsCheck s ef flgs options)) p"
  "inactive s p \<Longrightarrow> inactive (snd (EventFlagsClear s ef flgs)) p"
  "inactive s p \<Longrightarrow> inactive (snd (EventFlagsSet s ef flgs)) p"
  by (auto simp: inactive_def EventFlagsCheck_efs EventFlagsClear_efs EventFlagsSet_efs)

lemma inactive_Evr: "inactive (Evr s e) p = inactive s p"
  by (simp add: inactive_def Evr_def)

lemma inactive_PostProcess_loop:
  assumes "inactive s p"
  shows "inactive (osRtxEventFlagsPostProcess_loop s ef ts) p"
proof (rule PostProcess_loop_invariant)
  show "inactive s p" by fact
next
  fix s' :: rtx and t
  assume "inactive s' p"
  then show "inactive (snd (EventFlagsCheck s' ef (wait_flags (threads s' t))
      (ucast (flags_options (threads s' t))))) p"
    by (rule inactive_helpers)
next
  fix s' :: rtx and t v e
  assume "inactive s' p"
  then show "inactive (Evr (osRtxThreadWaitExit (osRtxThreadListRemove s' t) t v False) e) p"
    by (simp add: inactive_def prim_defs)
qed

lemma inactive_PostProcess:
  "inactive s p \<Longrightarrow> inactive (osRtxEventFlagsPostProcess s ef) p"
  by (simp add: osRtxEventFlagsPostProcess_def inactive_PostProcess_loop)

lemma inactive_svcSet:
  assumes "inactive s p"
  shows "inactive (snd (svcRtxEventFlagsSet s ef flgs)) p"
proof (cases "ef = NULL \<or> id' (efs s ef) \<noteq> osRtxIdEventFlags \<or> bit flgs 31 \<or>
    state (efs s ef) = osRtxObjectInactive")
  case True
  then have "efs (snd (svcRtxEventFlagsSet s ef flgs)) = efs s"
    by (auto simp: svcRtxEventFlagsSet_def flags_limit_bit31_pow Evr_def)
  with assms show ?thesis by (simp add: inactive_def)
next
  case False
  then have ok: "ef \<noteq> NULL" "id' (efs s ef) = osRtxIdEventFlags"
    "state (efs s ef) \<noteq> osRtxObjectInactive" "\<not> bit flgs 31"
    by simp_all
  have "inactive (osRtxEventFlagsPostProcess_loop (snd (EventFlagsSet s ef flgs)) ef
      (thread_list (efs s ef))) p"
    using assms by (intro inactive_PostProcess_loop inactive_helpers)
  then show ?thesis
    using svcRtxEventFlagsSet_ok(2) [OF ok] by (simp add: inactive_def)
qed

lemma inactive_isrSet:
  assumes "inactive s p"
  shows "inactive (snd (isrRtxEventFlagsSet s ef flgs)) p"
proof (cases "ef = NULL \<or> id' (efs s ef) \<noteq> osRtxIdEventFlags \<or> bit flgs 31 \<or>
    state (efs s ef) = osRtxObjectInactive")
  case True
  then have "efs (snd (isrRtxEventFlagsSet s ef flgs)) = efs s"
    by (auto simp: isrRtxEventFlagsSet_def flags_limit_bit31_pow Evr_def)
  with assms show ?thesis by (simp add: inactive_def)
next
  case False
  then have ok: "ef \<noteq> NULL" "id' (efs s ef) = osRtxIdEventFlags"
    "state (efs s ef) \<noteq> osRtxObjectInactive" "\<not> bit flgs 31"
    by simp_all
  have "inactive (snd (EventFlagsSet s ef flgs)) p"
    using assms by (rule inactive_helpers)
  then show ?thesis
    using isrRtxEventFlagsSet_ok(2) [OF ok] by (simp add: inactive_def EventFlagsSet_efs)
qed

lemma inactive_svcClear:
  "inactive s p \<Longrightarrow> inactive (snd (svcRtxEventFlagsClear s ef flgs)) p"
  by (auto simp: svcRtxEventFlagsClear_def case_prod_beta Let_def inactive_Evr inactive_helpers)

lemma inactive_svcGet:
  "inactive s p \<Longrightarrow> inactive (snd (svcRtxEventFlagsGet s ef)) p"
  by (auto simp: svcRtxEventFlagsGet_def inactive_Evr)

lemma inactive_svcGetName:
  "inactive s p \<Longrightarrow> inactive (snd (svcRtxEventFlagsGetName s ef)) p"
  by (auto simp: svcRtxEventFlagsGetName_def inactive_Evr)

lemma inactive_isrWait:
  "inactive s p \<Longrightarrow> inactive (snd (isrRtxEventFlagsWait s ef flgs options timeout)) p"
  by (auto simp: isrRtxEventFlagsWait_def case_prod_beta Let_def inactive_Evr inactive_helpers)

lemma osRtxThreadListPut_state:
  "state (efs (osRtxThreadListPut s ef thread) p) = state (efs s p)"
  by (simp add: osRtxThreadListPut_def)

lemma inactive_svcWait:
  assumes "inactive s p"
  shows "inactive (snd (svcRtxEventFlagsWait s ef flgs options timeout)) p"
proof -
  define c where "c = EventFlagsCheck s ef flgs options"
  have c: "inactive (snd c) p"
    unfolding c_def using assms by (rule inactive_helpers)
  define s3 where "s3 = (Evr (snd c) (EvrRtxEventFlagsWaitPending ef flgs options timeout))
      \<lparr>threads := (threads (snd c))(osRtxThreadGetRunning s :=
         (threads (snd c) (osRtxThreadGetRunning s))
           \<lparr>wait_flags := flgs, flags_options := ucast options\<rparr>)\<rparr>"
  define w where "w = osRtxThreadWaitEnter s3 osRtxThreadWaitingEventFlags timeout"
  define s5 where "s5 = (if fst w then osRtxThreadListPut (snd w) ef (osRtxThreadGetRunning s)
      else Evr (snd w) (EvrRtxEventFlagsWaitTimeout ef))"
  have s5: "inactive s5 p"
    using c
    by (simp add: s5_def w_def s3_def inactive_def osRtxThreadListPut_state
          osRtxThreadWaitEnter_efs Evr_def)
  have "snd (svcRtxEventFlagsWait s ef flgs options timeout) \<in>
      {Evr s (EvrRtxEventFlagsError ef osRtxErrorKernelNotRunning),
       Evr s (EvrRtxEventFlagsError ef osErrorParameter),
       Evr s (EvrRtxEventFlagsError ef osErrorResource),
       Evr (snd c) (EvrRtxEventFlagsWaitCompleted ef flgs options (fst c)),
       Evr (snd c) (EvrRtxEventFlagsWaitNotCompleted ef flgs options),
       s5}"
    by (simp add: svcRtxEventFlagsWait_def case_prod_beta Let_def c_def s3_def w_def s5_def
          EventFlagsCheck_frame Evr_def)
  with assms c s5 show ?thesis
    by (auto simp: inactive_Evr)
qed

lemma inactive_svcDelete:
  assumes "inactive s p"
  shows "inactive (snd (svcRtxEventFlagsDelete s ef)) p"
proof (cases "ef = NULL \<or> id' (efs s ef) \<noteq> osRtxIdEventFlags \<or>
    state (efs s ef) = osRtxObjectInactive")
  case True
  then have "efs (snd (svcRtxEventFlagsDelete s ef)) = efs s"
    by (auto simp: svcRtxEventFlagsDelete_def Evr_def)
  with assms show ?thesis by (simp add: inactive_def)
next
  case False
  then have ok: "ef \<noteq> NULL" "id' (efs s ef) = osRtxIdEventFlags"
    "state (efs s ef) \<noteq> osRtxObjectInactive"
    by simp_all
  show ?thesis
    using assms by (auto simp: inactive_def svcRtxEventFlagsDelete_ok(2) [OF ok])
qed

lemma inactive_exec:
  assumes "inactive s p"
  shows "inactive (exec s c) p"
  using assms
  by (cases c)
     (simp_all add: osEventFlagsGetName_def osEventFlagsSet_def
        osEventFlagsClear_def osEventFlagsGet_def osEventFlagsWait_def osEventFlagsDelete_def
        Let_def inactive_Evr inactive_svcGetName inactive_svcSet inactive_isrSet
        inactive_svcClear inactive_svcGet inactive_svcWait inactive_isrWait inactive_svcDelete
        inactive_PostProcess)

lemma inactive_run:
  "inactive s p \<Longrightarrow> inactive (foldl exec s cs) p"
  by (induction cs arbitrary: s) (simp_all add: inactive_exec)

section \<open>The claims\<close>

text \<open>
  C3. For every flag word and every flags, wait-all and auto-clear combination,
  \<^verbatim>\<open>EventFlagsCheck\<close> succeeds exactly when the condition holds: all of the flags are
  set if wait-all, some flag is set if wait-any. On success it returns the flag word that
  satisfied the condition and, with auto-clear, stores the flag word less exactly the
  matched bits; without auto-clear, and on failure (where it returns 0), memory is as it
  was.
\<close>

theorem EventFlagsCheck_meets_spec:
  "fst (EventFlagsCheck s ef flgs options) =
     (if condition_holds (event_flags (efs s ef)) flgs (wait_all options)
      then event_flags (efs s ef) else 0) \<and>
   efs (snd (EventFlagsCheck s ef flgs options)) =
     (if condition_holds (event_flags (efs s ef)) flgs (wait_all options) \<and> auto_clear options
      then (efs s)(ef := (efs s ef)
             \<lparr>event_flags := event_flags (efs s ef) AND NOT (event_flags (efs s ef) AND flgs)\<rparr>)
      else efs s)"
  unfolding and_not_matched by (simp add: EventFlagsCheck_fst EventFlagsCheck_efs)

theorem EventFlagsCheck_meets_spec_witness:
  "fst (EventFlagsCheck idle obj 3 0) = 6 \<and>
   event_flags (efs (snd (EventFlagsCheck idle obj 3 0)) obj) = 4 \<and>
   fst (EventFlagsCheck idle obj 3 1) = 0 \<and>
   event_flags (efs (snd (EventFlagsCheck idle obj 3 1)) obj) = 6 \<and>
   fst (EventFlagsCheck idle obj 3 2) = 6 \<and>
   event_flags (efs (snd (EventFlagsCheck idle obj 3 2)) obj) = 6"
  using EventFlagsCheck_meets_spec [of idle obj 3 0]
    EventFlagsCheck_meets_spec [of idle obj 3 1]
    EventFlagsCheck_meets_spec [of idle obj 3 2]
  by (simp add: condition_holds_def wait_all_def auto_clear_def sample_defs const_defs)

text \<open>
  C9. For every Active object and every flags value that fits in the low 31 bits,
  Clear returns the value the flag word held immediately before the clear, and a Get
  immediately afterwards has none of the cleared flags set.
\<close>

theorem clear_returns_prior_and_clears:
  assumes "ef \<noteq> NULL" and "id' (efs s ef) = osRtxIdEventFlags"
    and "state (efs s ef) = osRtxObjectActive" and "flgs < 2 ^ 31"
  shows "fst (osEventFlagsClear s ef flgs) = event_flags (efs s ef) \<and>
         fst (osEventFlagsGet (snd (osEventFlagsClear s ef flgs)) ef) AND flgs = 0"
proof -
  let ?s0 = "Evr s (EvrRtxEventFlagsClear ef flgs)"
  have mem: "efs ?s0 = efs s"
    by (simp add: Evr_def)
  have pre: "id' (efs ?s0 ef) = osRtxIdEventFlags" "state (efs ?s0 ef) \<noteq> osRtxObjectInactive"
    "\<not> bit flgs 31"
    using assms(2,3) assms(4) [unfolded less_2p31_iff]
    by (simp_all add: mem active_not_inactive)
  note clr = svcRtxEventFlagsClear_ok [OF assms(1) pre]
  have ret: "fst (osEventFlagsClear s ef flgs) = event_flags (efs s ef)"
    by (simp add: osEventFlagsClear_eq clr mem)
  let ?s1 = "snd (osEventFlagsClear s ef flgs)"
  have after: "efs ?s1 = (efs s)(ef := (efs s ef)\<lparr>event_flags := event_flags (efs s ef) AND NOT flgs\<rparr>)"
    by (simp add: osEventFlagsClear_eq clr mem)
  have "fst (osEventFlagsGet ?s1 ef) = event_flags (efs s ef) AND NOT flgs"
    using assms active_not_inactive
    by (simp add: osEventFlagsGet_eq svcRtxEventFlagsGet_ok after)
  moreover have "(event_flags (efs s ef) AND NOT flgs) AND flgs = 0"
    by (rule bit_eqI) (simp add: bit_simps)
  ultimately show ?thesis
    using ret by simp
qed

theorem clear_returns_prior_and_clears_witness:
  "fst (osEventFlagsClear idle obj 2) = 6 \<and>
   fst (osEventFlagsGet (snd (osEventFlagsClear idle obj 2)) obj) = 4"
proof -
  have pre: "obj \<noteq> NULL" "id' (efs idle obj) = osRtxIdEventFlags"
    "state (efs idle obj) = osRtxObjectActive" "(2 :: u32) < 2 ^ 31"
    by (simp_all add: sample_defs const_defs)
  have "fst (osEventFlagsGet (snd (osEventFlagsClear idle obj 2)) obj) = 4"
    by (simp add: osEventFlagsGet_def osEventFlagsClear_def svcRtxEventFlagsGet_def
        svcRtxEventFlagsClear_def EventFlagsClear_def IsIrqMode_def IsIrqMasked_def
        Let_def prim_defs sample_defs const_defs)
  with clear_returns_prior_and_clears [OF pre] show ?thesis
    by (simp add: sample_defs)
qed

text \<open>
  C10. Create called with an attributes structure whose control-block pointer is null
  and whose control-block size is nonzero reports an invalid-control-block error and
  returns no object: memory is as it was, and neither the pool nor the heap gave a block.
\<close>

theorem new_rejects_size_without_memory:
  assumes "cb_mem a = NULL" and "cb_size a \<noteq> 0"
  shows "svcRtxEventFlagsNew s (Some a) =
           (NULL, Evr s (EvrRtxEventFlagsError NULL osRtxErrorInvalidControlBlock)) \<and>
         efs (snd (svcRtxEventFlagsNew s (Some a))) = efs s \<and>
         mpi_event_flags (snd (svcRtxEventFlagsNew s (Some a))) = mpi_event_flags s \<and>
         mem_common (snd (svcRtxEventFlagsNew s (Some a))) = mem_common s"
  using assms by (simp add: svcRtxEventFlagsNew_def Evr_def)

theorem new_rejects_size_without_memory_witness:
  "svcRtxEventFlagsNew boot (Some \<lparr>attr_name = None, attr_bits = 0, cb_mem = NULL, cb_size = 16\<rparr>) =
     (NULL, Evr boot (EvrRtxEventFlagsError NULL osRtxErrorInvalidControlBlock)) \<and>
   mem_common (snd (svcRtxEventFlagsNew boot
     (Some \<lparr>attr_name = None, attr_bits = 0, cb_mem = NULL, cb_size = 16\<rparr>))) = [obj]"
  using new_rejects_size_without_memory
    [of "\<lparr>attr_name = None, attr_bits = 0, cb_mem = NULL, cb_size = 16\<rparr>" boot]
  by (simp add: boot_def Evr_def)

text \<open>
  C1, as stated: thread-context Set returns the flag word of before the call with the
  flags ORed in, whatever the wait list holds. It does not when a woken waiter asked for
  auto-clear: in the state \<open>waiting 0\<close> the first waiter waits for flag 1 with
  auto-clear, and Set of flag 1 on the flag word 0 returns 0.
\<close>

theorem set_return_counterexample:
  "obj \<noteq> NULL \<and> id' (efs (waiting 0) obj) = osRtxIdEventFlags \<and>
   state (efs (waiting 0) obj) = osRtxObjectActive \<and> (1 :: u32) < 2 ^ 31 \<and>
   fst (svcRtxEventFlagsSet (waiting 0) obj 1) \<noteq> event_flags (efs (waiting 0) obj) OR 1"
  by (simp add: svcRtxEventFlagsSet_def EventFlagsSet_def EventFlagsCheck_def Let_def
      prim_defs sample_defs const_defs)

text \<open>
  C1, amended: for every Active object and every flags value that fits in the low 31
  bits, thread-context Set ORs the flags into the flag word and walks the wait list in
  order; it returns the flag word the walk leaves, which is also the value stored when
  Set returns: the flag word of before the call with the flags ORed in, less the masks
  the satisfied auto-clear waiters consumed. When every auto-clear waiter is still in the
  wait list afterwards (none was woken), the returned value is the flag word of before
  the call with the flags ORed in.
\<close>

theorem svcRtxEventFlagsSet_returns_final_flag_word:
  assumes "ef \<noteq> NULL" and "id' (efs s ef) = osRtxIdEventFlags"
    and "state (efs s ef) = osRtxObjectActive" and "flgs < 2 ^ 31"
  shows "fst (svcRtxEventFlagsSet s ef flgs) =
           flag_word_after_walk (event_flags (efs s ef) OR flgs)
             (map (waiter s) (thread_list (efs s ef))) \<and>
         event_flags (efs (snd (svcRtxEventFlagsSet s ef flgs)) ef) =
           fst (svcRtxEventFlagsSet s ef flgs) \<and>
         ((\<forall>t \<in> set (thread_list (efs s ef)). auto_clear (snd (waiter s t)) \<longrightarrow>
              t \<in> set (thread_list (efs (snd (svcRtxEventFlagsSet s ef flgs)) ef)))
          \<longrightarrow> fst (svcRtxEventFlagsSet s ef flgs) = event_flags (efs s ef) OR flgs)"
proof -
  let ?s1 = "snd (EventFlagsSet s ef flgs)"
  let ?ts = "thread_list (efs s ef)"
  let ?w = "event_flags (efs s ef) OR flgs"
  let ?end = "osRtxEventFlagsPostProcess_loop ?s1 ef ?ts"
  have pre: "state (efs s ef) \<noteq> osRtxObjectInactive" "\<not> bit flgs 31"
    using assms(3) assms(4) [unfolded less_2p31_iff] by (simp_all add: active_not_inactive)
  note ok = svcRtxEventFlagsSet_ok [OF assms(1,2) pre]
  have w: "?w = event_flags (efs ?s1 ef)"
    by (simp add: EventFlagsSet_efs)
  have waiters: "waiter ?s1 = waiter s"
    by (rule ext) (simp add: waiter_def EventFlagsSet_frame)
  have ret: "fst (svcRtxEventFlagsSet s ef flgs) = event_flags (efs ?end ef)"
    using Set_loop_returns_flag_word [OF w, of ?ts] by (simp add: ok)
  have stored: "event_flags (efs (snd (svcRtxEventFlagsSet s ef flgs)) ef) =
      event_flags (efs ?end ef)"
    by (simp add: ok)
  have walk: "event_flags (efs ?end ef) = flag_word_after_walk ?w (map (waiter s) ?ts)"
    using PostProcess_loop_flag_word [of ?s1 ef ?ts] by (simp add: waiters w)
  have "event_flags (efs ?end ef) = ?w"
    if "\<forall>t \<in> set ?ts. auto_clear (snd (waiter s t)) \<longrightarrow>
          t \<in> set (thread_list (efs (snd (svcRtxEventFlagsSet s ef flgs)) ef))"
  proof -
    from that have "\<forall>t \<in> set ?ts. auto_clear (snd (waiter ?s1 t)) \<longrightarrow>
        t \<in> set (thread_list (efs ?end ef))"
      by (simp add: ok waiters)
    from PostProcess_loop_no_auto_clear_woken [OF this] show ?thesis
      by (simp add: w)
  qed
  with ret stored walk show ?thesis
    by simp
qed

theorem svcRtxEventFlagsSet_returns_final_flag_word_witness:
  "fst (svcRtxEventFlagsSet (waiting 0) obj 1) = 0 \<and>
   event_flags (efs (snd (svcRtxEventFlagsSet (waiting 0) obj 1)) obj) = 0 \<and>
   fst (svcRtxEventFlagsSet (waiting 0) obj 2) = 2 \<and>
   event_flags (efs (snd (svcRtxEventFlagsSet (waiting 0) obj 2)) obj) = 2 \<and>
   thread_list (efs (snd (svcRtxEventFlagsSet (waiting 0) obj 2)) obj) = [thr1, thr2] \<and>
   fst (svcRtxEventFlagsSet (waiting 2) obj 1) = 1 \<and>
   thread_list (efs (snd (svcRtxEventFlagsSet (waiting 2) obj 1)) obj) = [thr2]"
proof -
  have pre0: "obj \<noteq> NULL" "id' (efs (waiting 0) obj) = osRtxIdEventFlags"
    "state (efs (waiting 0) obj) = osRtxObjectActive"
    and pre2: "id' (efs (waiting 2) obj) = osRtxIdEventFlags"
    "state (efs (waiting 2) obj) = osRtxObjectActive"
    and f: "(1 :: u32) < 2 ^ 31" "(2 :: u32) < 2 ^ 31"
    by (simp_all add: sample_defs const_defs)
  have before: "event_flags (efs (waiting 0) obj) = 0" "event_flags (efs (waiting 2) obj) = 0"
    "map (waiter (waiting 0)) (thread_list (efs (waiting 0) obj)) = [(1, 0), (5, 3)]"
    "map (waiter (waiting 2)) (thread_list (efs (waiting 2) obj)) = [(1, 2), (5, 3)]"
    by (simp_all add: waiter_def sample_defs)
  have walks: "flag_word_after_walk 1 [(1, 0), (5, 3)] = 0"
    "flag_word_after_walk 2 [(1, 0), (5, 3)] = 2"
    "flag_word_after_walk 1 [(1, 2), (5, 3)] = 1"
    by (simp_all add: condition_holds_def wait_all_def auto_clear_def const_defs)
  have lists: "thread_list (efs (snd (svcRtxEventFlagsSet (waiting 0) obj 2)) obj) = [thr1, thr2]"
    "thread_list (efs (snd (svcRtxEventFlagsSet (waiting 2) obj 1)) obj) = [thr2]"
    by (simp_all add: svcRtxEventFlagsSet_def EventFlagsSet_def EventFlagsCheck_def Let_def
        prim_defs sample_defs const_defs)
  from svcRtxEventFlagsSet_returns_final_flag_word [OF pre0 f(1)]
    svcRtxEventFlagsSet_returns_final_flag_word [OF pre0 f(2)]
    svcRtxEventFlagsSet_returns_final_flag_word [OF pre0(1) pre2 f(1)]
    before walks lists
  show ?thesis
    by auto
qed

text \<open>
  C2. An interrupt-context Set registers the object for post ISR processing; followed
  by the post-processing callback it leaves the same waiter-wakeup outcome as a
  thread-context Set from the same state: the same object memory (wait lists and flag
  words), the same thread control blocks (wait results and states) and the same ready
  list.
\<close>

theorem isr_set_then_post_process_wakes_as_thread_set:
  assumes "ef \<noteq> NULL" and "id' (efs s ef) = osRtxIdEventFlags"
    and "state (efs s ef) = osRtxObjectActive" and "flgs < 2 ^ 31"
  shows "isr_queue (snd (isrRtxEventFlagsSet s ef flgs)) = isr_queue s @ [ef] \<and>
         efs (osRtxEventFlagsPostProcess (snd (isrRtxEventFlagsSet s ef flgs)) ef) =
           efs (snd (svcRtxEventFlagsSet s ef flgs)) \<and>
         threads (osRtxEventFlagsPostProcess (snd (isrRtxEventFlagsSet s ef flgs)) ef) =
           threads (snd (svcRtxEventFlagsSet s ef flgs)) \<and>
         thread_ready (osRtxEventFlagsPostProcess (snd (isrRtxEventFlagsSet s ef flgs)) ef) =
           thread_ready (snd (svcRtxEventFlagsSet s ef flgs))"
proof -
  let ?s1 = "snd (EventFlagsSet s ef flgs)"
  let ?si = "snd (isrRtxEventFlagsSet s ef flgs)"
  have pre: "state (efs s ef) \<noteq> osRtxObjectInactive" "\<not> bit flgs 31"
    using assms(3) assms(4) [unfolded less_2p31_iff] by (simp_all add: active_not_inactive)
  note svc = svcRtxEventFlagsSet_ok [OF assms(1,2) pre]
  note isr = isrRtxEventFlagsSet_ok [OF assms(1,2) pre]
  have agree: "efs ?si = efs ?s1" "threads ?si = threads ?s1" "thread_ready ?si = thread_ready ?s1"
    by (simp_all add: isr EventFlagsSet_efs EventFlagsSet_frame)
  have "osRtxEventFlagsPostProcess ?si ef =
      osRtxEventFlagsPostProcess_loop ?si ef (thread_list (efs s ef))"
    using pre(1) by (simp add: osRtxEventFlagsPostProcess_def isr)
  with PostProcess_loop_agree [OF agree, of ef "thread_list (efs s ef)"] show ?thesis
    by (simp add: svc isr(5))
qed

theorem isr_set_then_post_process_wakes_as_thread_set_witness:
  "isr_queue (snd (isrRtxEventFlagsSet (waiting 0) obj 1)) = [obj] \<and>
   thread_list (efs (snd (isrRtxEventFlagsSet (waiting 0) obj 1)) obj) = [thr1, thr2] \<and>
   thread_list (efs (snd (svcRtxEventFlagsSet (waiting 0) obj 1)) obj) = [thr2] \<and>
   wait_result (threads (snd (svcRtxEventFlagsSet (waiting 0) obj 1)) thr1) = 1 \<and>
   thread_ready (snd (svcRtxEventFlagsSet (waiting 0) obj 1)) = [thr1] \<and>
   efs (osRtxEventFlagsPostProcess (snd (isrRtxEventFlagsSet (waiting 0) obj 1)) obj) =
     efs (snd (svcRtxEventFlagsSet (waiting 0) obj 1)) \<and>
   threads (osRtxEventFlagsPostProcess (snd (isrRtxEventFlagsSet (waiting 0) obj 1)) obj) =
     threads (snd (svcRtxEventFlagsSet (waiting 0) obj 1)) \<and>
   thread_ready (osRtxEventFlagsPostProcess (snd (isrRtxEventFlagsSet (waiting 0) obj 1)) obj) =
     thread_ready (snd (svcRtxEventFlagsSet (waiting 0) obj 1))"
proof -
  have pre: "obj \<noteq> NULL" "id' (efs (waiting 0) obj) = osRtxIdEventFlags"
    "state (efs (waiting 0) obj) = osRtxObjectActive" "(1 :: u32) < 2 ^ 31"
    by (simp_all add: sample_defs const_defs)
  have isr: "isr_queue (snd (isrRtxEventFlagsSet (waiting 0) obj 1)) = [obj] \<and>
      thread_list (efs (snd (isrRtxEventFlagsSet (waiting 0) obj 1)) obj) = [thr1, thr2]"
    by (simp add: isrRtxEventFlagsSet_def EventFlagsSet_def Let_def prim_defs sample_defs
        const_defs)
  have svc: "thread_list (efs (snd (svcRtxEventFlagsSet (waiting 0) obj 1)) obj) = [thr2] \<and>
      wait_result (threads (snd (svcRtxEventFlagsSet (waiting 0) obj 1)) thr1) = 1 \<and>
      thread_ready (snd (svcRtxEventFlagsSet (waiting 0) obj 1)) = [thr1]"
    by (simp add: svcRtxEventFlagsSet_def EventFlagsSet_def EventFlagsCheck_def Let_def
        prim_defs sample_defs const_defs)
  from isr_set_then_post_process_wakes_as_thread_set [OF pre] isr svc show ?thesis
    by simp
qed

text \<open>
  C8. For all flag masks f1 and f2 below \<open>2^31\<close>, on an Active object with an empty
  wait list and flag word 0, Set of f1 followed by Set of f2 makes the next Get return
  \<open>f1 OR f2\<close>. The calls are those of the public API, in thread or interrupt context.
\<close>

theorem set_set_get:
  assumes "ef \<noteq> NULL" and "id' (efs s ef) = osRtxIdEventFlags"
    and "state (efs s ef) = osRtxObjectActive" and "thread_list (efs s ef) = []"
    and "event_flags (efs s ef) = 0" and "f1 < 2 ^ 31" and "f2 < 2 ^ 31"
  shows "fst (osEventFlagsGet (snd (osEventFlagsSet (snd (osEventFlagsSet s ef f1)) ef f2)) ef) =
         f1 OR f2"
proof -
  let ?s1 = "snd (osEventFlagsSet s ef f1)"
  let ?s2 = "snd (osEventFlagsSet ?s1 ef f2)"
  have act: "state (efs s ef) \<noteq> osRtxObjectInactive"
    using assms(3) by (simp add: active_not_inactive)
  have f: "\<not> bit f1 31" "\<not> bit f2 31"
    using assms(6) [unfolded less_2p31_iff] assms(7) [unfolded less_2p31_iff] by blast+
  have one: "efs ?s1 = (efs s)(ef := (efs s ef)\<lparr>event_flags := f1\<rparr>)"
    using osEventFlagsSet_no_waiters [OF assms(1,2) act f(1) assms(4)] assms(5) by simp
  have two: "efs ?s2 = (efs s)(ef := (efs s ef)\<lparr>event_flags := f1 OR f2\<rparr>)"
    using osEventFlagsSet_no_waiters [of ef ?s1 f2] assms(1,2,4) act f(2)
    by (simp add: one)
  show ?thesis
    using assms(1,2) act
    by (simp add: osEventFlagsGet_eq svcRtxEventFlagsGet_ok two)
qed

theorem set_set_get_witness:
  "fst (osEventFlagsGet (snd (osEventFlagsSet (snd (osEventFlagsSet
      (idle\<lparr>efs := (efs idle)(obj := (efs idle obj)\<lparr>event_flags := 0\<rparr>)\<rparr>) obj 5)) obj 3)) obj) = 7"
proof -
  let ?s = "idle\<lparr>efs := (efs idle)(obj := (efs idle obj)\<lparr>event_flags := 0\<rparr>)\<rparr>"
  have pre: "obj \<noteq> NULL" "id' (efs ?s obj) = osRtxIdEventFlags"
    "state (efs ?s obj) = osRtxObjectActive" "thread_list (efs ?s obj) = []"
    "event_flags (efs ?s obj) = 0" "(5 :: u32) < 2 ^ 31" "(3 :: u32) < 2 ^ 31"
    by (simp_all add: sample_defs const_defs)
  from set_set_get [OF pre] show ?thesis
    by simp
qed

text \<open>
  C6. For every Active object, thread-context Wait with timeout 0 whose condition is not
  met returns the resource error at once: object memory (the wait list and the flag
  word) and the thread control blocks (wait mask, wait options, thread state) are as they
  were, and so are the ready list and the running thread.
\<close>

theorem wait_without_timeout_unmet:
  assumes "osRtxThreadGetRunning s \<noteq> NULL"
    and "ef \<noteq> NULL" and "id' (efs s ef) = osRtxIdEventFlags"
    and "state (efs s ef) = osRtxObjectActive" and "flgs < 2 ^ 31"
    and "\<not> condition_holds (event_flags (efs s ef)) flgs (wait_all options)"
  shows "fst (svcRtxEventFlagsWait s ef flgs options 0) = as_uint32 osErrorResource \<and>
         efs (snd (svcRtxEventFlagsWait s ef flgs options 0)) = efs s \<and>
         threads (snd (svcRtxEventFlagsWait s ef flgs options 0)) = threads s \<and>
         thread_ready (snd (svcRtxEventFlagsWait s ef flgs options 0)) = thread_ready s \<and>
         thread_run_curr (snd (svcRtxEventFlagsWait s ef flgs options 0)) = thread_run_curr s"
proof -
  have pre: "state (efs s ef) \<noteq> osRtxObjectInactive" "\<not> bit flgs 31"
    using assms(4) assms(5) [unfolded less_2p31_iff] by (simp_all add: active_not_inactive)
  have c: "fst (EventFlagsCheck s ef flgs options) = 0"
    "efs (snd (EventFlagsCheck s ef flgs options)) = efs s"
    using assms(6) by (simp_all add: EventFlagsCheck_fst EventFlagsCheck_efs)
  show ?thesis
    using assms(1-3) pre c
    by (simp add: svcRtxEventFlagsWait_def flags_limit_bit31_pow case_prod_beta Let_def
          EventFlagsCheck_frame Evr_def)
qed

theorem wait_without_timeout_unmet_witness:
  "fst (svcRtxEventFlagsWait idle obj 1 0 0) = as_uint32 osErrorResource \<and>
   efs (snd (svcRtxEventFlagsWait idle obj 1 0 0)) = efs idle \<and>
   threads (snd (svcRtxEventFlagsWait idle obj 1 0 0)) = threads idle"
proof -
  have pre: "osRtxThreadGetRunning idle \<noteq> NULL" "obj \<noteq> NULL"
    "id' (efs idle obj) = osRtxIdEventFlags" "state (efs idle obj) = osRtxObjectActive"
    "(1 :: u32) < 2 ^ 31" "\<not> condition_holds (event_flags (efs idle obj)) 1 (wait_all 0)"
    by (simp_all add: osRtxThreadGetRunning_def condition_holds_def wait_all_def sample_defs
        const_defs)
  from wait_without_timeout_unmet [OF pre] show ?thesis
    by simp
qed

text \<open>
  C5. For every Active object with N threads in its wait list, thread-context Delete
  succeeds, and the states it passes through are in this order: the first is the state of
  before the call with the object marked Inactive and nothing else changed (no waiter
  woken yet); in the k-th state after it, for k up to N, exactly the first k waiters have
  left the wait list for the ready list; every state has the object Inactive; and the
  last is the state Delete returns. In that state the object is Inactive, its wait list is empty, and each of the
  N waiters is ready with the resource error as its wait result. The control block goes
  back to the allocator (the pool if one is configured, the heap otherwise) exactly when
  the object carries the system-object flag. After any sequence of later calls other
  than creation the object is still Inactive, and every operation on it fails: Set, Clear
  and Wait return an error code, Get returns 0, GetName returns no name, Delete returns
  an error status, and post-processing does nothing.
\<close>

theorem delete_drains_and_frees:
  assumes "ef \<noteq> NULL" and "id' (efs s ef) = osRtxIdEventFlags"
    and "state (efs s ef) = osRtxObjectActive"
  shows "last (svcRtxEventFlagsDelete_trace s ef) = snd (svcRtxEventFlagsDelete s ef) \<and>
    hd (svcRtxEventFlagsDelete_trace s ef) =
      s\<lparr>efs := (efs s)(ef := (efs s ef)\<lparr>state := osRtxObjectInactive\<rparr>)\<rparr> \<and>
    (\<forall>st \<in> set (svcRtxEventFlagsDelete_trace s ef). state (efs st ef) = osRtxObjectInactive) \<and>
    (\<forall>k \<le> length (thread_list (efs s ef)).
       thread_ready (svcRtxEventFlagsDelete_trace s ef ! k) =
         thread_ready s @ take k (thread_list (efs s ef)) \<and>
       thread_list (efs (svcRtxEventFlagsDelete_trace s ef ! k) ef) =
         drop k (thread_list (efs s ef))) \<and>
    fst (svcRtxEventFlagsDelete s ef) = osOK \<and>
    state (efs (snd (svcRtxEventFlagsDelete s ef)) ef) = osRtxObjectInactive \<and>
    thread_list (efs (snd (svcRtxEventFlagsDelete s ef)) ef) = [] \<and>
    (\<forall>t \<in> set (thread_list (efs s ef)).
       wait_result (threads (snd (svcRtxEventFlagsDelete s ef)) t) = as_uint32 osErrorResource \<and>
       thread_state (threads (snd (svcRtxEventFlagsDelete s ef)) t) = osRtxThreadReady) \<and>
    thread_ready (snd (svcRtxEventFlagsDelete s ef)) = thread_ready s @ thread_list (efs s ef) \<and>
    (flags (efs s ef) AND osRtxFlagSystemObject \<noteq> 0 \<longrightarrow>
       (mpi_event_flags (snd (svcRtxEventFlagsDelete s ef)),
        mem_common (snd (svcRtxEventFlagsDelete s ef))) =
       (case mpi_event_flags s of
          Some blocks \<Rightarrow> (Some (ef # blocks), mem_common s)
        | None \<Rightarrow> (None, ef # mem_common s))) \<and>
    (flags (efs s ef) AND osRtxFlagSystemObject = 0 \<longrightarrow>
       mpi_event_flags (snd (svcRtxEventFlagsDelete s ef)) = mpi_event_flags s \<and>
       mem_common (snd (svcRtxEventFlagsDelete s ef)) = mem_common s) \<and>
    inactive (foldl exec (snd (svcRtxEventFlagsDelete s ef)) cs) ef \<and>
    fst (svcRtxEventFlagsSet (foldl exec (snd (svcRtxEventFlagsDelete s ef)) cs) ef flgs)
      \<in> {as_uint32 osErrorParameter, as_uint32 osErrorResource} \<and>
    fst (isrRtxEventFlagsSet (foldl exec (snd (svcRtxEventFlagsDelete s ef)) cs) ef flgs)
      \<in> {as_uint32 osErrorParameter, as_uint32 osErrorResource} \<and>
    fst (svcRtxEventFlagsClear (foldl exec (snd (svcRtxEventFlagsDelete s ef)) cs) ef flgs)
      \<in> {as_uint32 osErrorParameter, as_uint32 osErrorResource} \<and>
    fst (svcRtxEventFlagsWait (foldl exec (snd (svcRtxEventFlagsDelete s ef)) cs) ef flgs
           options timeout)
      \<in> {as_uint32 osError, as_uint32 osErrorParameter, as_uint32 osErrorResource} \<and>
    fst (isrRtxEventFlagsWait (foldl exec (snd (svcRtxEventFlagsDelete s ef)) cs) ef flgs
           options timeout)
      \<in> {as_uint32 osErrorParameter, as_uint32 osErrorResource} \<and>
    fst (svcRtxEventFlagsGet (foldl exec (snd (svcRtxEventFlagsDelete s ef)) cs) ef) = 0 \<and>
    fst (svcRtxEventFlagsGetName (foldl exec (snd (svcRtxEventFlagsDelete s ef)) cs) ef) = None \<and>
    fst (svcRtxEventFlagsDelete (foldl exec (snd (svcRtxEventFlagsDelete s ef)) cs) ef)
      \<in> {osErrorParameter, osErrorResource} \<and>
    osRtxEventFlagsPostProcess (foldl exec (snd (svcRtxEventFlagsDelete s ef)) cs) ef =
      foldl exec (snd (svcRtxEventFlagsDelete s ef)) cs"
proof -
  have act: "state (efs s ef) \<noteq> osRtxObjectInactive"
    using assms(3) by (simp add: active_not_inactive)
  note del = svcRtxEventFlagsDelete_ok [OF assms(1,2) act]
  note trace = Delete_trace [OF assms(1,2) act]
  have ends: "last (svcRtxEventFlagsDelete_trace s ef) = snd (svcRtxEventFlagsDelete s ef)"
    by (simp add: trace(1))
  have gone: "state (efs (snd (svcRtxEventFlagsDelete s ef)) ef) = osRtxObjectInactive"
    by (simp add: del)
  then have later: "inactive (foldl exec (snd (svcRtxEventFlagsDelete s ef)) cs) ef"
    by (intro inactive_run) (simp add: inactive_def)
  note fails = inactive_fails [OF later [unfolded inactive_def]]
  have woken: "\<forall>t \<in> set (thread_list (efs s ef)).
       wait_result (threads (snd (svcRtxEventFlagsDelete s ef)) t) = as_uint32 osErrorResource \<and>
       thread_state (threads (snd (svcRtxEventFlagsDelete s ef)) t) = osRtxThreadReady"
    by (simp add: del)
  have freed: "flags (efs s ef) AND osRtxFlagSystemObject \<noteq> 0 \<longrightarrow>
       (mpi_event_flags (snd (svcRtxEventFlagsDelete s ef)),
        mem_common (snd (svcRtxEventFlagsDelete s ef))) =
       (case mpi_event_flags s of
          Some blocks \<Rightarrow> (Some (ef # blocks), mem_common s)
        | None \<Rightarrow> (None, ef # mem_common s))"
    by (simp add: del split: option.splits)
  have kept: "flags (efs s ef) AND osRtxFlagSystemObject = 0 \<longrightarrow>
       mpi_event_flags (snd (svcRtxEventFlagsDelete s ef)) = mpi_event_flags s \<and>
       mem_common (snd (svcRtxEventFlagsDelete s ef)) = mem_common s"
    by (simp add: del)
  have drained: "thread_list (efs (snd (svcRtxEventFlagsDelete s ef)) ef) = []"
    "thread_ready (snd (svcRtxEventFlagsDelete s ef)) = thread_ready s @ thread_list (efs s ef)"
    by (simp_all add: del)
  have passes: "\<forall>k \<le> length (thread_list (efs s ef)).
       thread_ready (svcRtxEventFlagsDelete_trace s ef ! k) =
         thread_ready s @ take k (thread_list (efs s ef)) \<and>
       thread_list (efs (svcRtxEventFlagsDelete_trace s ef ! k) ef) =
         drop k (thread_list (efs s ef))"
    using Delete_trace_passes by blast
  show ?thesis
    using ends trace(2,3) passes del(1) gone drained woken freed kept later fails
    by (intro conjI)
qed

theorem delete_drains_and_frees_witness:
  "fst (svcRtxEventFlagsDelete (waiting 0) obj) = osOK \<and>
   state (efs (hd (svcRtxEventFlagsDelete_trace (waiting 0) obj)) obj) = osRtxObjectInactive \<and>
   thread_list (efs (hd (svcRtxEventFlagsDelete_trace (waiting 0) obj)) obj) = [thr1, thr2] \<and>
   thread_ready (hd (svcRtxEventFlagsDelete_trace (waiting 0) obj)) = [] \<and>
   thread_ready (svcRtxEventFlagsDelete_trace (waiting 0) obj ! 1) = [thr1] \<and>
   thread_list (efs (svcRtxEventFlagsDelete_trace (waiting 0) obj ! 1) obj) = [thr2] \<and>
   state (efs (snd (svcRtxEventFlagsDelete (waiting 0) obj)) obj) = osRtxObjectInactive \<and>
   thread_list (efs (snd (svcRtxEventFlagsDelete (waiting 0) obj)) obj) = [] \<and>
   wait_result (threads (snd (svcRtxEventFlagsDelete (waiting 0) obj)) thr1) =
     as_uint32 osErrorResource \<and>
   wait_result (threads (snd (svcRtxEventFlagsDelete (waiting 0) obj)) thr2) =
     as_uint32 osErrorResource \<and>
   thread_ready (snd (svcRtxEventFlagsDelete (waiting 0) obj)) = [thr1, thr2] \<and>
   mem_common (snd (svcRtxEventFlagsDelete (waiting 0) obj)) = [obj] \<and>
   fst (svcRtxEventFlagsGet (snd (svcRtxEventFlagsDelete (waiting 0) obj)) obj) = 0 \<and>
   fst (svcRtxEventFlagsGet
     (foldl exec (snd (svcRtxEventFlagsDelete (waiting 0) obj))
        [Call_osEventFlagsSet obj 1, Call_osEventFlagsDelete obj]) obj) = 0"
proof -
  have pre: "obj \<noteq> NULL" "id' (efs (waiting 0) obj) = osRtxIdEventFlags"
    "state (efs (waiting 0) obj) = osRtxObjectActive"
    by (simp_all add: sample_defs const_defs)
  have before: "thread_list (efs (waiting 0) obj) = [thr1, thr2]"
    "flags (efs (waiting 0) obj) AND osRtxFlagSystemObject \<noteq> 0"
    "mpi_event_flags (waiting 0) = None" "mem_common (waiting 0) = []"
    "thread_ready (waiting 0) = []"
    by (simp_all add: sample_defs const_defs)
  from delete_drains_and_frees [OF pre, where cs = "[]"]
    delete_drains_and_frees [OF pre,
      where cs = "[Call_osEventFlagsSet obj 1, Call_osEventFlagsDelete obj]"]
    before
  show ?thesis
    by simp
qed

text \<open>
  C4, as stated: every public operation answers a null object pointer with the
  parameter error. Get does not: it returns 0.
\<close>

theorem get_reports_no_error_counterexample:
  "fst (osEventFlagsGet idle NULL) \<noteq> as_uint32 osErrorParameter"
  by (simp add: osEventFlagsGet_def svcRtxEventFlagsGet_def const_defs)

text \<open>
  C4, amended. Set and Clear in either context, and Wait in thread context with a
  running thread or in interrupt context: a null or wrongly tagged object pointer, or
  flags with bit 31 set, give the parameter error; otherwise an Inactive object gives the
  resource error (for interrupt-context Wait when the timeout is 0). Delete in thread
  context, which takes no flags: the parameter error for a null or wrongly tagged
  pointer, otherwise the resource error for an Inactive object. Get reports no error
  code: it returns 0 for a null, wrongly tagged or Inactive object.
\<close>

theorem validation_errors:
  "(\<not> valid_object s ef \<or> \<not> flgs < 2 ^ 31 \<longrightarrow>
      fst (osEventFlagsSet s ef flgs) = as_uint32 osErrorParameter \<and>
      fst (osEventFlagsClear s ef flgs) = as_uint32 osErrorParameter \<and>
      (thread_context s \<and> osRtxThreadGetRunning s \<noteq> NULL \<or> \<not> thread_context s \<longrightarrow>
         fst (osEventFlagsWait s ef flgs options timeout) = as_uint32 osErrorParameter)) \<and>
   (valid_object s ef \<and> flgs < 2 ^ 31 \<and> state (efs s ef) = osRtxObjectInactive \<longrightarrow>
      fst (osEventFlagsSet s ef flgs) = as_uint32 osErrorResource \<and>
      fst (osEventFlagsClear s ef flgs) = as_uint32 osErrorResource \<and>
      (thread_context s \<and> osRtxThreadGetRunning s \<noteq> NULL \<or>
       \<not> thread_context s \<and> timeout = 0 \<longrightarrow>
         fst (osEventFlagsWait s ef flgs options timeout) = as_uint32 osErrorResource)) \<and>
   (thread_context s \<and> \<not> valid_object s ef \<longrightarrow>
      fst (osEventFlagsDelete s ef) = osErrorParameter) \<and>
   (thread_context s \<and> valid_object s ef \<and> state (efs s ef) = osRtxObjectInactive \<longrightarrow>
      fst (osEventFlagsDelete s ef) = osErrorResource) \<and>
   (\<not> valid_object s ef \<or> state (efs s ef) = osRtxObjectInactive \<longrightarrow>
      fst (osEventFlagsGet s ef) = 0)"
proof -
  have bad: "fst (osEventFlagsSet s ef flgs) = as_uint32 osErrorParameter"
    "fst (osEventFlagsClear s ef flgs) = as_uint32 osErrorParameter"
    "thread_context s \<and> osRtxThreadGetRunning s \<noteq> NULL \<or> \<not> thread_context s \<Longrightarrow>
     fst (osEventFlagsWait s ef flgs options timeout) = as_uint32 osErrorParameter"
    if "\<not> valid_object s ef \<or> \<not> flgs < 2 ^ 31"
    using that unfolding less_2p31_iff
    by (auto simp: osEventFlagsSet_def osEventFlagsClear_def osEventFlagsWait_def Let_def
          valid_object_def thread_context_def Evr_frame intro!: parameter_errors)
  have gone: "fst (osEventFlagsSet s ef flgs) = as_uint32 osErrorResource"
    "fst (osEventFlagsClear s ef flgs) = as_uint32 osErrorResource"
    "thread_context s \<and> osRtxThreadGetRunning s \<noteq> NULL \<or> \<not> thread_context s \<and> timeout = 0
     \<Longrightarrow> fst (osEventFlagsWait s ef flgs options timeout) = as_uint32 osErrorResource"
    if "valid_object s ef \<and> flgs < 2 ^ 31 \<and> state (efs s ef) = osRtxObjectInactive"
    using that unfolding less_2p31_iff
    by (auto simp: osEventFlagsSet_def osEventFlagsClear_def osEventFlagsWait_def Let_def
          valid_object_def thread_context_def Evr_frame intro!: resource_errors)
  have del: "thread_context s \<and> \<not> valid_object s ef \<Longrightarrow>
      fst (osEventFlagsDelete s ef) = osErrorParameter"
    "thread_context s \<and> valid_object s ef \<and> state (efs s ef) = osRtxObjectInactive \<Longrightarrow>
      fst (osEventFlagsDelete s ef) = osErrorResource"
    by (auto simp: osEventFlagsDelete_def Let_def valid_object_def thread_context_def Evr_frame
          intro!: delete_errors)
  have get: "\<not> valid_object s ef \<or> state (efs s ef) = osRtxObjectInactive \<Longrightarrow>
      fst (osEventFlagsGet s ef) = 0"
    by (auto simp: osEventFlagsGet_eq valid_object_def intro!: get_zero)
  show ?thesis
    using bad gone del get by blast
qed

theorem validation_errors_witness:
  "fst (osEventFlagsSet idle NULL 1) = as_uint32 osErrorParameter \<and>
   fst (osEventFlagsClear idle obj 0x80000000) = as_uint32 osErrorParameter \<and>
   fst (osEventFlagsWait idle thr1 1 0 0) = as_uint32 osErrorParameter \<and>
   fst (osEventFlagsSet boot obj 1) = as_uint32 osErrorParameter \<and>
   fst (osEventFlagsDelete idle NULL) = osErrorParameter \<and>
   fst (osEventFlagsGet idle NULL) = 0 \<and>
   fst (osEventFlagsSet (snd (osEventFlagsDelete idle obj)) obj 1) = as_uint32 osErrorResource \<and>
   fst (osEventFlagsDelete (snd (osEventFlagsDelete idle obj)) obj) = osErrorResource \<and>
   fst (osEventFlagsGet (snd (osEventFlagsDelete idle obj)) obj) = 0"
proof -
  let ?d = "snd (osEventFlagsDelete idle obj)"
  have ctx: "thread_context idle" "osRtxThreadGetRunning idle \<noteq> NULL"
    by (simp_all add: thread_context_def IsIrqMode_def IsIrqMasked_def osRtxThreadGetRunning_def
        sample_defs const_defs)
  have bad: "\<not> valid_object idle NULL" "\<not> valid_object idle thr1" "\<not> valid_object boot obj"
    "valid_object idle obj" "\<not> (0x80000000 :: u32) < 2 ^ 31" "(1 :: u32) < 2 ^ 31"
    by (simp_all add: valid_object_def sample_defs const_defs)
  have deleted: "thread_context ?d" "valid_object ?d obj"
    "state (efs ?d obj) = osRtxObjectInactive"
    by (simp_all add: thread_context_def valid_object_def IsIrqMode_def IsIrqMasked_def
        osEventFlagsDelete_def svcRtxEventFlagsDelete_def Let_def prim_defs sample_defs const_defs)
  from validation_errors [of idle NULL 1 0 0] validation_errors [of idle obj "0x80000000" 0 0]
    validation_errors [of idle thr1 1 0 0] validation_errors [of boot obj 1 0 0]
    validation_errors [of ?d obj 1 0 0] ctx bad deleted
  show ?thesis
    by simp
qed

text \<open>
  C7. Creation stores the flag word 0. From any state in which bit 31 of an object's
  stored flag word is zero, every operation of the subsystem leaves it zero: the public
  calls New, GetName, Set, Clear, Get, Wait and Delete in either context, the service and
  ISR calls behind them, the post-processing callback and the check helper, for any
  arguments (flags that do not fit in the low 31 bits are rejected before any write).
\<close>

theorem flag_word_bit31_invariant:
  assumes "bit31_clear s p"
  shows "(fst (osEventFlagsNew s attr) \<noteq> NULL \<longrightarrow>
      event_flags (efs (snd (osEventFlagsNew s attr)) (fst (osEventFlagsNew s attr))) = 0) \<and>
    bit31_clear (snd (osEventFlagsNew s attr)) p \<and>
    bit31_clear (snd (osEventFlagsGetName s ef)) p \<and>
    bit31_clear (snd (osEventFlagsSet s ef flgs)) p \<and>
    bit31_clear (snd (osEventFlagsClear s ef flgs)) p \<and>
    bit31_clear (snd (osEventFlagsGet s ef)) p \<and>
    bit31_clear (snd (osEventFlagsWait s ef flgs options timeout)) p \<and>
    bit31_clear (snd (osEventFlagsDelete s ef)) p \<and>
    bit31_clear (osRtxEventFlagsPostProcess s ef) p \<and>
    bit31_clear (snd (EventFlagsCheck s ef flgs options)) p \<and>
    bit31_clear (snd (svcRtxEventFlagsNew s attr)) p \<and>
    bit31_clear (snd (svcRtxEventFlagsSet s ef flgs)) p \<and>
    bit31_clear (snd (isrRtxEventFlagsSet s ef flgs)) p \<and>
    bit31_clear (snd (svcRtxEventFlagsClear s ef flgs)) p \<and>
    bit31_clear (snd (svcRtxEventFlagsGet s ef)) p \<and>
    bit31_clear (snd (svcRtxEventFlagsWait s ef flgs options timeout)) p \<and>
    bit31_clear (snd (isrRtxEventFlagsWait s ef flgs options timeout)) p \<and>
    bit31_clear (snd (svcRtxEventFlagsDelete s ef)) p"
proof -
  note pub = bit31_public [OF assms]
  have new: "fst (osEventFlagsNew s attr) \<noteq> NULL \<longrightarrow>
      event_flags (efs (snd (osEventFlagsNew s attr)) (fst (osEventFlagsNew s attr))) = 0"
    using osEventFlagsNew_zero by blast
  have int: "bit31_clear (osRtxEventFlagsPostProcess s ef) p"
    "bit31_clear (snd (EventFlagsCheck s ef flgs options)) p"
    using assms by (rule bit31_PostProcess, rule bit31_helpers)
  have svc: "bit31_clear (snd (svcRtxEventFlagsNew s attr)) p"
    "bit31_clear (snd (svcRtxEventFlagsSet s ef flgs)) p"
    "bit31_clear (snd (isrRtxEventFlagsSet s ef flgs)) p"
    "bit31_clear (snd (svcRtxEventFlagsClear s ef flgs)) p"
    "bit31_clear (snd (svcRtxEventFlagsGet s ef)) p"
    "bit31_clear (snd (svcRtxEventFlagsWait s ef flgs options timeout)) p"
    "bit31_clear (snd (isrRtxEventFlagsWait s ef flgs options timeout)) p"
    "bit31_clear (snd (svcRtxEventFlagsDelete s ef)) p"
    using assms
    by (simp_all add: bit31_svcNew bit31_svcSet bit31_isrSet bit31_svcClear bit31_svcGet
          bit31_svcWait bit31_isrWait bit31_svcDelete)
  show ?thesis
    using new pub int svc by (intro conjI)
qed

theorem flag_word_bit31_invariant_witness:
  "fst (osEventFlagsNew boot None) = obj \<and>
   event_flags (efs (snd (osEventFlagsNew boot None)) obj) = 0 \<and>
   bit31_clear (snd (osEventFlagsSet idle obj 0x80000001)) obj \<and>
   bit31_clear (snd (osEventFlagsSet idle obj 0x7FFFFFFF)) obj \<and>
   bit31_clear (snd (osEventFlagsWait idle obj 6 1 0)) obj \<and>
   bit31_clear (snd (osEventFlagsDelete idle obj)) obj"
proof -
  have start: "bit31_clear idle obj"
    by (simp add: bit31_clear_def sample_defs)
  have new: "fst (osEventFlagsNew boot None) = obj" "obj \<noteq> NULL"
    by (simp_all add: osEventFlagsNew_def svcRtxEventFlagsNew_def svcRtxEventFlagsNew_init_def
        osRtxMemoryAlloc_def IsIrqMode_def IsIrqMasked_def Let_def Evr_def sample_defs
        const_defs)
  from flag_word_bit31_invariant [OF start, of None obj "0x80000001" 0 0]
    flag_word_bit31_invariant [OF start, of None obj "0x7FFFFFFF" 0 0]
    flag_word_bit31_invariant [OF start, of None obj 6 1 0]
    flag_word_bit31_invariant [of boot obj None obj 0 0 0] new
  show ?thesis
    by (simp add: bit31_clear_def boot_def zero_ef_def)
qed

end
